theory Spec2Isabelle
  imports Complex_Main "HOL-Library.Log_Nat" "HOL-Library.Sublist"
begin

section \<open>JavaScript numbers\<close>

text \<open>
  A JavaScript \<^verbatim>\<open>number\<close> is an IEEE 754 binary64 value. A finite one is a rational; the
  two infinities and NaN are separate values. The two signed zeros are one value here: no
  modelled operation tells them apart. Comparisons are exact; an arithmetic result is the
  exact result rounded to the nearest binary64 value, ties to the even significand
  (\<open>round_double\<close>), which is also how a decimal literal or a JSON number is read.
\<close>

datatype jsnum = Fin rat | PosInf | NegInf | NaN

text \<open>The exponent of a positive rational: \<open>2 powi (ilog2 a) \<le> a < 2 powi (ilog2 a + 1)\<close>.\<close>

definition ilog2 :: "rat \<Rightarrow> int" where
  "ilog2 a = (case quotient_of a of (p, q) \<Rightarrow>
     (let e = bitlen p - bitlen q in if 2 powi e \<le> a then e else e - 1))"

definition round_half_even :: "rat \<Rightarrow> int" where
  "round_half_even q =
     (let n = \<lfloor>q\<rfloor>; d = q - of_int n
      in if d < 1 / 2 then n else if 1 / 2 < d then n + 1 else if even n then n else n + 1)"

text \<open>
  Rounding to binary64: 53 significant bits, the exponent of a normal value between -1022
  and 1023, a fixed spacing of \<open>2 powi (-1074)\<close> below that (subnormal values), and an
  infinity when the rounded magnitude reaches \<open>2 powi 1024\<close>.
\<close>

definition round_double :: "rat \<Rightarrow> jsnum" where
  "round_double r =
     (if r = 0 then Fin 0
      else let a = \<bar>r\<bar>;
               e = max (ilog2 a) (- 1022);
               u = 2 powi (e - 52);
               v = of_int (round_half_even (a / u)) * u
           in if 2 powi 1024 \<le> v then (if 0 < r then PosInf else NegInf)
              else Fin (if 0 < r then v else - v))"

text \<open>The operator \<^verbatim>\<open>>=\<close> on numbers: false as soon as one side is NaN.\<close>

fun js_ge :: "jsnum \<Rightarrow> jsnum \<Rightarrow> bool" where
  "js_ge NaN y = False"
| "js_ge x NaN = False"
| "js_ge (Fin a) (Fin b) = (b \<le> a)"
| "js_ge PosInf y = True"
| "js_ge x NegInf = True"
| "js_ge (Fin a) PosInf = False"
| "js_ge NegInf y = False"

text \<open>The operator \<^verbatim>\<open>*\<close> on numbers.\<close>

fun js_mul :: "jsnum \<Rightarrow> jsnum \<Rightarrow> jsnum" where
  "js_mul NaN y = NaN"
| "js_mul x NaN = NaN"
| "js_mul (Fin a) (Fin b) = round_double (a * b)"
| "js_mul (Fin a) PosInf = (if a = 0 then NaN else if 0 < a then PosInf else NegInf)"
| "js_mul (Fin a) NegInf = (if a = 0 then NaN else if 0 < a then NegInf else PosInf)"
| "js_mul PosInf (Fin b) = (if b = 0 then NaN else if 0 < b then PosInf else NegInf)"
| "js_mul NegInf (Fin b) = (if b = 0 then NaN else if 0 < b then NegInf else PosInf)"
| "js_mul PosInf PosInf = PosInf"
| "js_mul PosInf NegInf = NegInf"
| "js_mul NegInf PosInf = NegInf"
| "js_mul NegInf NegInf = PosInf"

text \<open>
  \<^verbatim>\<open>Math.round\<close>: the integer closest to the argument, the one closer to plus infinity
  when two are equally close. It is computed exactly, not by a rounded addition of one half.
\<close>

fun Math_round :: "jsnum \<Rightarrow> jsnum" where
  "Math_round (Fin x) = Fin (of_int \<lfloor>x + 1 / 2\<rfloor>)"
| "Math_round x = x"

text \<open>A similarity as the backend promises it: a finite number between 0 and 1.\<close>

fun in_unit_interval :: "jsnum \<Rightarrow> bool" where
  "in_unit_interval (Fin x) = (0 \<le> x \<and> x \<le> 1)"
| "in_unit_interval x = False"

section \<open>JavaScript strings and arrays\<close>

text \<open>
  A string is a list of characters. The global \<^verbatim>\<open>replace\<close> of \<open>buildImageUrl\<close> scans
  the string and puts a slash for every backslash (\<open>CHR 0x5C\<close>); \<^verbatim>\<open>startsWith\<close>
  compares the leading characters with the search string.
\<close>

fun replace_backslashes :: "string \<Rightarrow> string" where
  "replace_backslashes [] = []"
| "replace_backslashes (c # cs) =
     (if c = CHR 0x5C then CHR ''/'' else c) # replace_backslashes cs"

fun startsWith :: "string \<Rightarrow> string \<Rightarrow> bool" where
  "startsWith s [] = True"
| "startsWith [] (p # ps) = False"
| "startsWith (c # cs) (p # ps) = (c = p \<and> startsWith cs ps)"

text \<open>A non-negative integer in a template literal is printed in decimal.\<close>

fun show_nat :: "nat \<Rightarrow> string" where
  "show_nat n =
     (if n < 10 then [''0123456789'' ! n]
      else show_nat (n div 10) @ [''0123456789'' ! (n mod 10)])"

declare show_nat.simps [simp del]

definition show_int :: "int \<Rightarrow> string" where
  "show_int i = (if i < 0 then ''-'' @ show_nat (nat (- i)) else show_nat (nat i))"

text \<open>
  \<^verbatim>\<open>Array.prototype.filter\<close> visits the elements by increasing index and appends each
  element that passes the test to the result array; \<^verbatim>\<open>Array.prototype.some\<close> stops at the
  first element that passes.
\<close>

fun filter_loop :: "('a \<Rightarrow> bool) \<Rightarrow> 'a list \<Rightarrow> 'a list \<Rightarrow> 'a list" where
  "filter_loop p [] acc = acc"
| "filter_loop p (x # xs) acc = filter_loop p xs (if p x then acc @ [x] else acc)"

definition array_filter :: "('a \<Rightarrow> bool) \<Rightarrow> 'a list \<Rightarrow> 'a list" where
  "array_filter p xs = filter_loop p xs []"

fun array_some :: "('a \<Rightarrow> bool) \<Rightarrow> 'a list \<Rightarrow> bool" where
  "array_some p [] = False"
| "array_some p (x # xs) = (if p x then True else array_some p xs)"

text \<open>
  The operator \<^verbatim>\<open>||\<close> on strings: the left operand when it is truthy (defined and not the
  empty string), the right operand otherwise.
\<close>

definition truthy :: "string option \<Rightarrow> bool" where
  "truthy v = (case v of None \<Rightarrow> False | Some s \<Rightarrow> s \<noteq> [])"

definition or_else :: "string option \<Rightarrow> string \<Rightarrow> string" where
  "or_else v d = (case v of None \<Rightarrow> d | Some s \<Rightarrow> if s \<noteq> [] then s else d)"

definition or_undefined :: "string option \<Rightarrow> string option" where
  "or_undefined v = (if truthy v then v else None)"

section \<open>Configuration\<close>

text \<open>
  The module \<^verbatim>\<open>api/config\<close> exports the base URL, the endpoint paths and the two
  thresholds. The module is not among the sources: its values are parameters of the model.
\<close>

record config =
  API_BASE_URL :: string
  ENDPOINTS_LOST :: string
  ENDPOINTS_FOUND :: string
  ENDPOINTS_HEALTH :: string
  MATCH_THRESHOLD :: jsnum
  HIGH_MATCH_THRESHOLD :: jsnum

section \<open>API client\<close>

subsection \<open>\<^verbatim>\<open>buildImageUrl\<close>\<close>

definition buildImageUrl :: "config \<Rightarrow> string \<Rightarrow> string" where
  "buildImageUrl cfg imageUrl =
     (if imageUrl = [] then []
      else let normalized = replace_backslashes imageUrl
           in if startsWith normalized ''http://'' \<or> startsWith normalized ''https://''
              then normalized
              else let path = (if startsWith normalized ''/'' then normalized
                               else ''/'' @ normalized)
                   in API_BASE_URL cfg @ path)"

subsection \<open>\<^verbatim>\<open>buildFormData\<close>\<close>

text \<open>
  Modelled from the spec: the type \<^verbatim>\<open>SubmitItemPayload\<close> is declared in the module
  \<^verbatim>\<open>types/itemTypes\<close>, which is not among the sources. The spec gives it as
  \<^verbatim>\<open>{ file: {uri, name, type}, title, description?, locationType, locationDetail?, timeFrame }\<close>;
  an optional field is an \<open>option\<close>. The picked image is a reference to a file: its
  location, its name and its media type. The fields of the file and the field \<^verbatim>\<open>file\<close>
  of the payload carry a prefix or a suffix here.
\<close>

record FileRef =
  file_uri :: string
  file_name :: string
  file_type :: string

record SubmitItemPayload =
  file_field :: FileRef
  title :: string
  description :: "string option"
  locationType :: string
  locationDetail :: "string option"
  timeFrame :: string

text \<open>A multipart body is the list of its entries, in the order they were appended.\<close>

datatype form_value = Text string | Blob FileRef

type_synonym FormData = "(string \<times> form_value) list"

definition append_entry :: "FormData \<Rightarrow> string \<Rightarrow> form_value \<Rightarrow> FormData" where
  "append_entry formData key v = formData @ [(key, v)]"

definition buildFormData :: "SubmitItemPayload \<Rightarrow> FormData" where
  "buildFormData payload =
     (let formData = [];
          formData = append_entry formData ''file''
            (Blob \<lparr>file_uri = file_uri (file_field payload),
                   file_name = file_name (file_field payload),
                   file_type = file_type (file_field payload)\<rparr>);
          formData = append_entry formData ''title'' (Text (title payload));
          formData = (case description payload of
              None \<Rightarrow> formData
            | Some d \<Rightarrow> if d \<noteq> [] then append_entry formData ''description'' (Text d)
                        else formData);
          formData = append_entry formData ''location_type'' (Text (locationType payload));
          formData = (case locationDetail payload of
              None \<Rightarrow> formData
            | Some d \<Rightarrow> if d \<noteq> [] then append_entry formData ''location_detail'' (Text d)
                        else formData);
          formData = append_entry formData ''time_frame'' (Text (timeFrame payload))
      in formData)"

subsection \<open>Requests, responses and errors\<close>

text \<open>
  A thrown value is an error object with its class and message. \<^verbatim>\<open>fetch\<close> rejects with a
  \<^verbatim>\<open>TypeError\<close> when no response is received; \<^verbatim>\<open>response.json()\<close> rejects with a
  \<^verbatim>\<open>SyntaxError\<close> on a body that is not JSON. All three are instances of \<^verbatim>\<open>Error\<close>.
\<close>

datatype js_error = Error string | TypeError string | SyntaxError string

fun message :: "js_error \<Rightarrow> string" where
  "message (Error m) = m"
| "message (TypeError m) = m"
| "message (SyntaxError m) = m"

fun instanceof_Error :: "js_error \<Rightarrow> bool" where
  "instanceof_Error (Error m) = True"
| "instanceof_Error (TypeError m) = True"
| "instanceof_Error (SyntaxError m) = True"

record request =
  url :: string
  http_method :: string
  body :: "FormData option"
  headers :: "(string \<times> string) list"

text \<open>
  A response carries its status code and what reading its body gives: \<^verbatim>\<open>text()\<close> and
  \<^verbatim>\<open>json()\<close> each resolve to a value or reject. \<^verbatim>\<open>response.ok\<close> is true for the
  status codes 200 to 299.
\<close>

record 'r http_response =
  status :: nat
  text_result :: "js_error + string"
  json_result :: "js_error + 'r"

definition ok :: "'r http_response \<Rightarrow> bool" where
  "ok response = (200 \<le> status response \<and> status response \<le> 299)"

datatype 'r fetch_outcome = Rejected js_error | Resolved "'r http_response"

text \<open>
  The network is the function that answers a request. An operation of the client returns the
  requests it issued, in order, with its result: \<open>Inl\<close> the thrown error, \<open>Inr\<close> the value.
\<close>

type_synonym 'r fetch = "request \<Rightarrow> 'r fetch_outcome"

definition always_respond :: "'r fetch_outcome \<Rightarrow> 'r fetch" where
  "always_respond outcome req = outcome"

definition submitLostItem ::
  "config \<Rightarrow> 'r fetch \<Rightarrow> SubmitItemPayload \<Rightarrow> request list \<times> (js_error + 'r)" where
  "submitLostItem cfg fetch payload =
     (let formData = buildFormData payload;
          req = \<lparr>url = API_BASE_URL cfg @ ENDPOINTS_LOST cfg, http_method = ''POST'',
                 body = Some formData,
                 headers = [(''Content-Type'', ''multipart/form-data'')]\<rparr>
      in case fetch req of
           Rejected e \<Rightarrow> ([req], Inl e)
         | Resolved response \<Rightarrow>
             if \<not> ok response then
               (let errorText = (case text_result response of
                                   Inl e \<Rightarrow> ''Unknown error'' | Inr txt \<Rightarrow> txt)
                in ([req], Inl (Error (''Failed to submit lost item: ''
                      @ show_nat (status response) @ '' - '' @ errorText))))
             else ([req], json_result response))"

definition submitFoundItem ::
  "config \<Rightarrow> 'r fetch \<Rightarrow> SubmitItemPayload \<Rightarrow> request list \<times> (js_error + 'r)" where
  "submitFoundItem cfg fetch payload =
     (let formData = buildFormData payload;
          req = \<lparr>url = API_BASE_URL cfg @ ENDPOINTS_FOUND cfg, http_method = ''POST'',
                 body = Some formData,
                 headers = [(''Content-Type'', ''multipart/form-data'')]\<rparr>
      in case fetch req of
           Rejected e \<Rightarrow> ([req], Inl e)
         | Resolved response \<Rightarrow>
             if \<not> ok response then
               (let errorText = (case text_result response of
                                   Inl e \<Rightarrow> ''Unknown error'' | Inr txt \<Rightarrow> txt)
                in ([req], Inl (Error (''Failed to submit found item: ''
                      @ show_nat (status response) @ '' - '' @ errorText))))
             else ([req], json_result response))"

definition checkHealth :: "config \<Rightarrow> 'r fetch \<Rightarrow> request list \<times> (js_error + 'r)" where
  "checkHealth cfg fetch =
     (let req = \<lparr>url = API_BASE_URL cfg @ ENDPOINTS_HEALTH cfg, http_method = ''GET'',
                 body = None, headers = []\<rparr>
      in case fetch req of
           Rejected e \<Rightarrow> ([req], Inl e)
         | Resolved response \<Rightarrow>
             if \<not> ok response then ([req], Inl (Error ''Backend is not reachable''))
             else ([req], json_result response))"

section \<open>Match classifier (report screen and item card)\<close>

text \<open>
  Modelled from the spec: the types \<^verbatim>\<open>MatchResult\<close> and \<^verbatim>\<open>Match\<close> are declared in the
  module \<^verbatim>\<open>types/itemTypes\<close>, which is not among the sources. The spec gives a match result
  as \<^verbatim>\<open>{ item, similarity }\<close>, its item with \<^verbatim>\<open>id\<close>, \<^verbatim>\<open>image_url\<close>,
  \<^verbatim>\<open>location_type\<close>, \<^verbatim>\<open>location_detail?\<close>, \<^verbatim>\<open>time_frame\<close>, \<^verbatim>\<open>description\<close>,
  \<^verbatim>\<open>title\<close>, \<^verbatim>\<open>created_at\<close>; the fields of the display model are those that
  \<open>convertToMatch\<close> fills. A field whose name is used by another record or by HOL carries a
  prefix, since a record field is a constant of the theory. An item id is an integer. The
  display item keeps the creation time as the ISO string its \<^verbatim>\<open>Date\<close> is built from.
\<close>

datatype ReportType = lost | found

record RemoteItem =
  item_id :: int
  image_url :: string
  location_type :: string
  location_detail :: "string option"
  time_frame :: string
  item_description :: "string option"
  item_title :: "string option"
  created_at :: string

record MatchResult =
  item :: RemoteItem
  similarity :: jsnum

datatype match_status = high | possible

record DisplayItem =
  display_id :: string
  display_type :: ReportType
  imageUrl :: string
  display_where :: string
  display_specificPlace :: "string option"
  display_when :: string
  display_description :: string
  timestamp :: string

record Match =
  match_id :: string
  match_item :: DisplayItem
  match_similarity :: jsnum
  match_status :: match_status

definition filteredMatches :: "config \<Rightarrow> MatchResult list \<Rightarrow> MatchResult list" where
  "filteredMatches cfg matches =
     array_filter (\<lambda>m. js_ge (similarity m) (MATCH_THRESHOLD cfg)) matches"

definition convertToMatch ::
  "config \<Rightarrow> (string \<Rightarrow> string) \<Rightarrow> ReportType \<Rightarrow> MatchResult \<Rightarrow> Match" where
  "convertToMatch cfg t reportType matchResult =
     \<lparr>match_id = show_int (item_id (item matchResult)),
      match_item =
        \<lparr>display_id = show_int (item_id (item matchResult)),
         display_type = (if reportType = lost then found else lost),
         imageUrl = buildImageUrl cfg (image_url (item matchResult)),
         display_where = or_else (Some (location_type (item matchResult))) ''Unknown'',
         display_specificPlace = or_undefined (location_detail (item matchResult)),
         display_when = or_else (Some (time_frame (item matchResult))) ''Unknown'',
         display_description =
           or_else (item_description (item matchResult))
             (or_else (item_title (item matchResult)) (t ''no_description'')),
         timestamp = created_at (item matchResult)\<rparr>,
      match_similarity = Math_round (js_mul (similarity matchResult) (Fin 100)),
      match_status =
        (if js_ge (similarity matchResult) (HIGH_MATCH_THRESHOLD cfg) then high
         else possible)\<rparr>"

text \<open>The item card: \<^verbatim>\<open>matches.some(m => m.similarity >= 75)\<close>.\<close>

definition hasHighMatch :: "Match list \<Rightarrow> bool" where
  "hasHighMatch matches = array_some (\<lambda>m. js_ge (match_similarity m) (Fin 75)) matches"

section \<open>Report screen: \<^verbatim>\<open>handleSubmit\<close>\<close>

text \<open>
  The state of the screen is the value of its state hooks. The form fields \<^verbatim>\<open>image\<close>,
  \<^verbatim>\<open>where\<close>, \<^verbatim>\<open>when\<close> and \<^verbatim>\<open>description\<close> carry a suffix here. The response of a
  submission is read for its \<^verbatim>\<open>matches\<close> only.
\<close>

record ItemFormData =
  image_field :: "FileRef option"
  where_field :: string
  specificPlace :: string
  when_field :: string
  description_field :: string

record SubmitResponse =
  response_matches :: "MatchResult list"

record screen =
  reportType :: ReportType
  formData :: ItemFormData
  matches :: "MatchResult list"
  isSubmitting :: bool
  showSuccessModal :: bool
  error :: "string option"

definition empty_form :: ItemFormData where
  "empty_form = \<lparr>image_field = None, where_field = [], specificPlace = [], when_field = [],
     description_field = []\<rparr>"

text \<open>The object literal built inside the \<^verbatim>\<open>try\<close> block; the image is known to be set.\<close>

definition build_payload :: "bool \<Rightarrow> ItemFormData \<Rightarrow> FileRef \<Rightarrow> SubmitItemPayload" where
  "build_payload isLost fd img =
     \<lparr>file_field = img,
      title = or_else (Some (description_field fd))
                ((if isLost then ''Lost'' else ''Found'') @ '' item at '' @ where_field fd),
      description = or_undefined (Some (description_field fd)),
      locationType = where_field fd,
      locationDetail = or_undefined (Some (specificPlace fd)),
      timeFrame = when_field fd\<rparr>"

text \<open>
  \<open>handleSubmit\<close> returns the state after all its updates and the requests it issued.
  \<open>t\<close> is the translation function of the language context. The call of
  \<^verbatim>\<open>console.error\<close> in the \<^verbatim>\<open>catch\<close> block changes no state and is left out.
\<close>

definition submitFn ::
  "bool \<Rightarrow> config \<Rightarrow> 'r fetch \<Rightarrow> SubmitItemPayload \<Rightarrow> request list \<times> (js_error + 'r)" where
  "submitFn isLost = (if isLost then submitLostItem else submitFoundItem)"

definition handleSubmit ::
  "config \<Rightarrow> (string \<Rightarrow> string) \<Rightarrow> SubmitResponse fetch \<Rightarrow> screen \<Rightarrow> screen \<times> request list"
  where
  "handleSubmit cfg t fetch s =
     (case image_field (formData s) of
        None \<Rightarrow> (s\<lparr>error := Some (t ''error_image_required'')\<rparr>, [])
      | Some img \<Rightarrow>
          if where_field (formData s) = [] then
            (s\<lparr>error := Some (t ''error_location_required'')\<rparr>, [])
          else if when_field (formData s) = [] then
            (s\<lparr>error := Some (t ''error_time_required'')\<rparr>, [])
          else
            (let isLost = (reportType s = lost);
                 s1 = s\<lparr>isSubmitting := True, error := None\<rparr>;
                 payload = build_payload isLost (formData s) img;
                 (reqs, result) = submitFn isLost cfg fetch payload;
                 s2 = (case result of
                         Inr response \<Rightarrow>
                           s1\<lparr>matches := response_matches response,
                              showSuccessModal := True,
                              formData := empty_form\<rparr>
                       | Inl err \<Rightarrow>
                           s1\<lparr>error := Some (if instanceof_Error err then message err
                                              else t ''error_generic'')\<rparr>)
             in (s2\<lparr>isSubmitting := False\<rparr>, reqs)))"

section \<open>Example values\<close>

text \<open>
  A configuration with the thresholds of the spec's examples (0.5 and 0.85, each read as
  the nearest binary64 value), and a match result with a given id and similarity.
\<close>

definition example_config :: config where
  "example_config =
     \<lparr>API_BASE_URL = ''http://10.0.2.2:8000'', ENDPOINTS_LOST = ''/api/lost'',
      ENDPOINTS_FOUND = ''/api/found'', ENDPOINTS_HEALTH = ''/health'',
      MATCH_THRESHOLD = round_double (1 / 2), HIGH_MATCH_THRESHOLD = round_double (85 / 100)\<rparr>"

definition example_match :: "int \<Rightarrow> jsnum \<Rightarrow> MatchResult" where
  "example_match i s =
     \<lparr>item = \<lparr>item_id = i, image_url = ''uploads/a.png'', location_type = ''Mall'',
              location_detail = None, time_frame = ''Today'', item_description = None,
              item_title = Some ''Wallet'', created_at = ''2024-01-01T00:00:00Z''\<rparr>,
      similarity = s\<rparr>"

text \<open>A translation function: every key is its own text.\<close>

definition example_t :: "string \<Rightarrow> string" where
  "example_t key = key"

text \<open>A picked image, a payload and two backend answers.\<close>

definition example_file :: FileRef where
  "example_file = \<lparr>file_uri = ''file:///tmp/photo.jpg'', file_name = ''photo.jpg'',
     file_type = ''image/jpeg''\<rparr>"

definition example_payload :: SubmitItemPayload where
  "example_payload =
     \<lparr>file_field = example_file, title = ''Black wallet'', description = Some ''Black wallet'',
      locationType = ''Mall'', locationDetail = None, timeFrame = ''Today''\<rparr>"

definition response_500 :: "SubmitResponse http_response" where
  "response_500 = \<lparr>status = 500, text_result = Inr ''boom'',
     json_result = Inl (SyntaxError ''JSON Parse error'')\<rparr>"

definition network_failure :: "SubmitResponse fetch_outcome" where
  "network_failure = Rejected (TypeError ''Network request failed'')"

text \<open>The body of a successful health check, and a health check that gets no response.\<close>

record HealthResponse =
  health_status :: string
  version :: string
  health_timestamp :: string

definition example_health :: HealthResponse where
  "example_health = \<lparr>health_status = ''ok'', version = ''1.0.0'',
     health_timestamp = ''2024-01-01T00:00:00Z''\<rparr>"

definition example_health_down :: "HealthResponse fetch_outcome" where
  "example_health_down = Rejected (TypeError ''Network request failed'')"

definition response_503 :: "HealthResponse http_response" where
  "response_503 = \<lparr>status = 503, text_result = Inr ''maintenance'',
     json_result = Inr example_health\<rparr>"

text \<open>A filled form, the screen that holds it, and a successful answer with one match.\<close>

definition example_form :: ItemFormData where
  "example_form = \<lparr>image_field = Some example_file, where_field = ''Mall'',
     specificPlace = [], when_field = ''Today'', description_field = []\<rparr>"

definition example_screen :: screen where
  "example_screen = \<lparr>reportType = lost, formData = example_form, matches = [],
     isSubmitting = False, showSuccessModal = False, error = None\<rparr>"

definition response_200 :: "SubmitResponse http_response" where
  "response_200 = \<lparr>status = 200, text_result = Inr ''{}'',
     json_result = Inr \<lparr>response_matches = [example_match 1 (Fin (3 / 4))]\<rparr>\<rparr>"

section \<open>Rounding, loops and strings: auxiliary facts\<close>

lemma ilog2_le: assumes "0 < a" shows "2 powi (ilog2 a) \<le> a"
proof -
  obtain p q where pq: "quotient_of a = (p, q)" by (cases "quotient_of a")
  then have q: "0 < q" and a: "a = of_int p / of_int q"
    using quotient_of_denom_pos quotient_of_div by auto
  with assms have p: "0 < p" by (simp add: zero_less_divide_iff)
  let ?e = "bitlen p - bitlen q"
  show ?thesis
  proof (cases "2 powi ?e \<le> a")
    case True
    then show ?thesis by (simp add: ilog2_def pq)
  next
    case False
    have bp: "2 ^ nat (bitlen p - 1) \<le> p" and bq: "q < 2 ^ nat (bitlen q)"
      using bitlen_bounds [OF p] bitlen_bounds [OF q] by auto
    have p1: "1 \<le> bitlen p" using p bitlen_eq_zero_iff [of p] bitlen_nonneg [of p] by linarith
    have e1: "?e - 1 = (bitlen p - 1) - bitlen q" by simp
    have "(2::rat) powi (?e - 1) = 2 powi (bitlen p - 1) / 2 powi (bitlen q)"
      by (subst e1) (rule power_int_diff, simp)
    also have "\<dots> = 2 ^ nat (bitlen p - 1) / 2 ^ nat (bitlen q)"
      using p1 bitlen_nonneg [of q] by (simp add: power_int_def)
    also have "\<dots> \<le> of_int p / of_int q"
    proof -
      have "(2::rat) ^ nat (bitlen p - 1) \<le> of_int p"
        using bp by (metis of_int_le_iff of_int_numeral of_int_power)
      moreover have "(of_int q :: rat) \<le> 2 ^ nat (bitlen q)"
        using bq by (metis less_imp_le of_int_le_iff of_int_numeral of_int_power)
      moreover have "(0::rat) < of_int q" using q by simp
      moreover have "(0::rat) \<le> of_int p" using p by simp
      ultimately show ?thesis by (intro frac_le) auto
    qed
    also have "\<dots> = a" by (simp only: a)
    finally show ?thesis using False by (simp add: ilog2_def pq)
  qed
qed

lemma ilog2_less: assumes "0 < a" shows "a < 2 powi (ilog2 a + 1)"
proof -
  obtain p q where pq: "quotient_of a = (p, q)" by (cases "quotient_of a")
  then have q: "0 < q" and a: "a = of_int p / of_int q"
    using quotient_of_denom_pos quotient_of_div by auto
  with assms have p: "0 < p" by (simp add: zero_less_divide_iff)
  let ?e = "bitlen p - bitlen q"
  show ?thesis
  proof (cases "2 powi ?e \<le> a")
    case False
    then show ?thesis by (simp add: ilog2_def pq)
  next
    case True
    have bp: "p < 2 ^ nat (bitlen p)" and bq: "2 ^ nat (bitlen q - 1) \<le> q"
      using bitlen_bounds [OF p] bitlen_bounds [OF q] by auto
    have q1: "1 \<le> bitlen q" using q bitlen_eq_zero_iff [of q] bitlen_nonneg [of q] by linarith
    have e1: "?e + 1 = bitlen p - (bitlen q - 1)" by simp
    have "a = of_int p / of_int q" by (rule a)
    also have "\<dots> < 2 ^ nat (bitlen p) / 2 ^ nat (bitlen q - 1)"
    proof -
      have "(of_int p :: rat) < 2 ^ nat (bitlen p)"
        using bp by (metis of_int_less_iff of_int_numeral of_int_power)
      moreover have "(2::rat) ^ nat (bitlen q - 1) \<le> of_int q"
        using bq by (metis of_int_le_iff of_int_numeral of_int_power)
      moreover have "(0::rat) < 2 ^ nat (bitlen q - 1)" by simp
      moreover have "(0::rat) \<le> of_int p" using p by simp
      ultimately show ?thesis by (intro frac_less) auto
    qed
    also have "\<dots> = 2 powi (bitlen p) / 2 powi (bitlen q - 1)"
      using q1 bitlen_nonneg [of p] by (simp add: power_int_def)
    also have "\<dots> = 2 powi (?e + 1)"
      by (subst e1) (rule power_int_diff [symmetric], simp)
    finally show ?thesis using True by (simp add: ilog2_def pq)
  qed
qed

lemma pow2_less_imp_less: assumes "(2::rat) powi m < 2 powi n" shows "m < n"
proof (rule ccontr)
  assume "\<not> m < n"
  then have "n \<le> m" by simp
  then have "(2::rat) powi n \<le> 2 powi m" by (intro power_int_increasing) simp_all
  with assms show False by simp
qed

lemma ilog2_eqI: assumes "2 powi e \<le> a" "a < 2 powi (e + 1)" shows "ilog2 a = e"
proof -
  have "(0::rat) < 2 powi e" by simp
  with assms(1) have a: "0 < a" by linarith
  have "(2::rat) powi (ilog2 a) < 2 powi (e + 1)" using ilog2_le [OF a] assms(2) by simp
  then have "ilog2 a < e + 1" by (rule pow2_less_imp_less)
  moreover have "(2::rat) powi e < 2 powi (ilog2 a + 1)" using ilog2_less [OF a] assms(1) by simp
  then have "e < ilog2 a + 1" by (rule pow2_less_imp_less)
  ultimately show ?thesis by simp
qed


lemma ilog2_half: "1 / 2 \<le> a \<Longrightarrow> a < 1 \<Longrightarrow> ilog2 a = - 1"
  by (rule ilog2_eqI) simp_all

lemma ilog2_one: "1 \<le> a \<Longrightarrow> a < 2 \<Longrightarrow> ilog2 a = 0"
  by (rule ilog2_eqI) simp_all

lemma ilog2_64: "64 \<le> a \<Longrightarrow> a < 128 \<Longrightarrow> ilog2 a = 6"
  by (rule ilog2_eqI) simp_all

lemma ilog2_eighth: "1 / 8 \<le> a \<Longrightarrow> a < 1 / 4 \<Longrightarrow> ilog2 a = - 3"
  by (rule ilog2_eqI) simp_all

lemma ilog2_8: "8 \<le> a \<Longrightarrow> a < 16 \<Longrightarrow> ilog2 a = 3"
  by (rule ilog2_eqI) simp_all


lemma floor_rat_numeral: "\<lfloor>numeral a / numeral b :: rat\<rfloor> = numeral a div numeral b"
  by (metis floor_divide_of_int_eq of_int_numeral)

lemmas round_double_eval = round_double_def round_half_even_def Let_def
  ilog2_half ilog2_one ilog2_64 ilog2_eighth ilog2_8 floor_rat_numeral

lemma round_half_even_le: assumes "q \<le> of_int N" shows "round_half_even q \<le> N"
proof -
  have fl: "\<lfloor>q\<rfloor> \<le> N" using assms by (simp add: floor_le_iff)
  show ?thesis
  proof (cases "\<lfloor>q\<rfloor> = N")
    case True
    then have "q - of_int \<lfloor>q\<rfloor> \<le> 0" using assms by simp
    then show ?thesis using True by (simp add: round_half_even_def Let_def)
  next
    case False
    with fl have "\<lfloor>q\<rfloor> + 1 \<le> N" by simp
    then show ?thesis by (simp add: round_half_even_def Let_def)
  qed
qed

lemma round_half_even_nonneg: "0 \<le> q \<Longrightarrow> 0 \<le> round_half_even q"
  by (simp add: round_half_even_def Let_def)

lemma round_double_percent:
  assumes "0 \<le> x" "x \<le> 1"
  shows "\<exists>y. round_double (x * 100) = Fin y \<and> 0 \<le> y \<and> y \<le> 100"
proof (cases "x = 0")
  case True
  then show ?thesis by (simp add: round_double_def)
next
  case False
  define a where "a = x * 100"
  have a: "0 < a" "a \<le> 100" using assms False by (simp_all add: a_def)
  define e where "e = max (ilog2 a) (- 1022)"
  define u :: rat where "u = 2 powi (e - 52)"
  define v where "v = of_int (round_half_even (a / u)) * u"
  have u: "0 < u" by (simp add: u_def)
  have "(2::rat) powi (ilog2 a) < 2 powi 7" using ilog2_le [OF a(1)] a(2) by simp
  then have "ilog2 a < 7" by (rule power_int_le_imp_less_exp [rotated]) simp_all
  then have e: "e \<le> 6" by (simp add: e_def)
  have "(100::rat) / u = 100 * 2 powi (52 - e)"
    by (simp add: u_def power_int_diff)
  also have "\<dots> = 25 * 2 powi (54 - e)"
    by (simp add: power_int_diff)
  also have "\<dots> = of_int (25 * 2 ^ nat (54 - e))"
    using e by (simp add: power_int_def)
  finally have N: "100 / u = of_int (25 * 2 ^ nat (54 - e))" .
  have "a / u \<le> 100 / u" using a u by (simp add: divide_right_mono)
  then have "round_half_even (a / u) \<le> 25 * 2 ^ nat (54 - e)"
    using N round_half_even_le by simp
  then have "(of_int (round_half_even (a / u)) :: rat) \<le> of_int (25 * 2 ^ nat (54 - e))"
    by (simp only: of_int_le_iff)
  then have "v \<le> (100 / u) * u" unfolding v_def N using u by (simp add: mult_right_mono)
  then have v100: "v \<le> 100" using u by simp
  have "0 \<le> a / u" using a u by simp
  then have v0: "0 \<le> v" unfolding v_def using u round_half_even_nonneg by simp
  have "\<not> 2 powi 1024 \<le> v" using v100 by (simp add: power_int_def)
  then have "round_double (x * 100) = Fin v"
    using a by (simp add: round_double_def Let_def a_def [symmetric] e_def [symmetric]
        u_def [symmetric] v_def [symmetric])
  with v0 v100 show ?thesis by simp
qed

lemma filter_loop_append: "filter_loop p xs acc = acc @ filter p xs"
  by (induction xs arbitrary: acc) simp_all

lemma array_filter_eq: "array_filter p xs = filter p xs"
  by (simp add: array_filter_def filter_loop_append)

lemma array_some_iff: "array_some p xs \<longleftrightarrow> (\<exists>x\<in>set xs. p x)"
  by (induction xs) simp_all

lemma double_half: "round_double (1 / 2) = Fin (1 / 2)"
  by (simp add: round_double_eval)

lemma double_1_01: "round_double (101 / 100) = Fin (4548635623644201 / 4503599627370496)"
  by (simp add: round_double_eval)

lemma js_ge_unit_0: "in_unit_interval s \<Longrightarrow> js_ge s (Fin 0)"
  by (cases s) simp_all

lemma js_ge_unit_1_01: "in_unit_interval s \<Longrightarrow> \<not> js_ge s (round_double (101 / 100))"
  by (cases s) (simp_all add: double_1_01)

lemma js_ge_refl: "s \<noteq> NaN \<Longrightarrow> js_ge s s"
  by (cases s) simp_all

lemma double_0_85: "round_double (17 / 20) = Fin (7656119366529843 / 9007199254740992)"
  by (simp add: round_double_eval)

lemma percent_0_744: "Math_round (js_mul (round_double (744 / 1000)) (Fin 100)) = Fin 74"
  by (simp add: round_double_eval)

lemma percent_0_745: "Math_round (js_mul (round_double (745 / 1000)) (Fin 100)) = Fin 75"
  by (simp add: round_double_eval)

text \<open>
  The tie of \<open>Math_round\<close> is decided on the binary64 product, not on the decimal numeral
  of the similarity: the literal 0.145 has a product with 100 just below 14.5, and its
  percentage is 14.
\<close>

lemma percent_0_145: "Math_round (js_mul (round_double (145 / 1000)) (Fin 100)) = Fin 14"
  by (simp add: round_double_eval)

lemma percent_0_8: "Math_round (js_mul (round_double (8 / 10)) (Fin 100)) = Fin 80"
  by (simp add: round_double_eval)

lemma percent_0_72: "Math_round (js_mul (round_double (72 / 100)) (Fin 100)) = Fin 72"
  by (simp add: round_double_eval)

lemma status_0_8: "\<not> js_ge (round_double (8 / 10)) (round_double (85 / 100))"
  by (simp add: round_double_eval)

lemma status_0_72: "js_ge (round_double (72 / 100)) (round_double (7 / 10))"
  by (simp add: round_double_eval)

lemma match_status_convertToMatch:
  "match_status (convertToMatch cfg t rt m) =
     (if js_ge (similarity m) (HIGH_MATCH_THRESHOLD cfg) then high else possible)"
  by (simp add: convertToMatch_def)

lemma match_similarity_convertToMatch:
  "match_similarity (convertToMatch cfg t rt m) = Math_round (js_mul (similarity m) (Fin 100))"
  by (simp add: convertToMatch_def)

lemma similarity_update: "similarity (m\<lparr>similarity := x\<rparr>) = x"
  by simp

lemma threshold_update: "HIGH_MATCH_THRESHOLD (cfg\<lparr>HIGH_MATCH_THRESHOLD := x\<rparr>) = x"
  by simp

lemma Math_round_half_up:
  "of_int \<lfloor>y + 1 / 2\<rfloor> - 1 / 2 \<le> (y::rat) \<and> y < of_int \<lfloor>y + 1 / 2\<rfloor> + 1 / 2"
  by linarith

lemma percent_unit:
  assumes "in_unit_interval s"
  shows "\<exists>y p. js_mul s (Fin 100) = Fin y \<and> Math_round (js_mul s (Fin 100)) = Fin (of_int p)
           \<and> of_int p - 1 / 2 \<le> y \<and> y < of_int p + 1 / 2 \<and> 0 \<le> p \<and> p \<le> 100"
proof -
  from assms obtain x where s: "s = Fin x" and x: "0 \<le> x" "x \<le> 1"
    by (cases s) simp_all
  from round_double_percent [OF x] obtain y
    where y: "round_double (x * 100) = Fin y" "0 \<le> y" "y \<le> 100" by blast
  let ?p = "\<lfloor>y + 1 / 2\<rfloor>"
  have "0 \<le> ?p" using y(2) by simp
  moreover have "?p \<le> 100" using y(3) by (simp add: floor_le_iff)
  moreover have "js_mul s (Fin 100) = Fin y" by (simp add: s y(1))
  moreover have "of_int ?p - 1 / 2 \<le> y \<and> y < of_int ?p + 1 / 2" by (rule Math_round_half_up)
  ultimately show ?thesis by auto
qed

lemma replace_backslashes_map:
  "replace_backslashes s = map (\<lambda>c. if c = CHR 0x5C then CHR ''/'' else c) s"
  by (induction s) simp_all

lemma startsWith_prefix: "startsWith s pre \<longleftrightarrow> prefix pre s"
  by (induction s pre rule: startsWith.induct) auto

lemma map_no_backslash:
  "CHR 0x5C \<notin> set (map (\<lambda>c. if c = CHR 0x5C then CHR ''/'' else c) s)"
  by (induction s) simp_all

lemma show_nat_500: "show_nat 500 = ''500''"
  by (simp add: show_nat.simps)

lemma sublist_mid: "sublist b (a @ b @ c)"
  by (auto simp: sublist_def)

lemma sublist_end3: "sublist d (a @ b @ c @ d)"
  unfolding sublist_def by (rule exI [of _ "a @ b @ c"], rule exI [of _ "[]"]) simp

lemma submitLostItem_run:
  "submitLostItem cfg fetch payload =
     ([\<lparr>url = API_BASE_URL cfg @ ENDPOINTS_LOST cfg, http_method = ''POST'',
        body = Some (buildFormData payload),
        headers = [(''Content-Type'', ''multipart/form-data'')]\<rparr>],
      case fetch \<lparr>url = API_BASE_URL cfg @ ENDPOINTS_LOST cfg, http_method = ''POST'',
                  body = Some (buildFormData payload),
                  headers = [(''Content-Type'', ''multipart/form-data'')]\<rparr> of
        Rejected e \<Rightarrow> Inl e
      | Resolved response \<Rightarrow>
          if ok response then json_result response
          else Inl (Error (''Failed to submit lost item: '' @ show_nat (status response)
                 @ '' - '' @ (case text_result response of
                               Inl e \<Rightarrow> ''Unknown error'' | Inr txt \<Rightarrow> txt))))"
  by (simp add: submitLostItem_def Let_def split: fetch_outcome.split)

lemma submitFoundItem_run:
  "submitFoundItem cfg fetch payload =
     ([\<lparr>url = API_BASE_URL cfg @ ENDPOINTS_FOUND cfg, http_method = ''POST'',
        body = Some (buildFormData payload),
        headers = [(''Content-Type'', ''multipart/form-data'')]\<rparr>],
      case fetch \<lparr>url = API_BASE_URL cfg @ ENDPOINTS_FOUND cfg, http_method = ''POST'',
                  body = Some (buildFormData payload),
                  headers = [(''Content-Type'', ''multipart/form-data'')]\<rparr> of
        Rejected e \<Rightarrow> Inl e
      | Resolved response \<Rightarrow>
          if ok response then json_result response
          else Inl (Error (''Failed to submit found item: '' @ show_nat (status response)
                 @ '' - '' @ (case text_result response of
                               Inl e \<Rightarrow> ''Unknown error'' | Inr txt \<Rightarrow> txt))))"
  by (simp add: submitFoundItem_def Let_def split: fetch_outcome.split)

lemma submit_outcome:
  assumes run: "run =
     ([req],
      case fetch req of
        Rejected e \<Rightarrow> Inl e
      | Resolved response \<Rightarrow>
          if ok response then json_result response
          else Inl (Error (pre @ show_nat (status response)
                 @ sep @ (case text_result response of
                            Inl e \<Rightarrow> ''Unknown error'' | Inr txt \<Rightarrow> txt))))"
  shows "\<exists>req. fst run = [req]
     \<and> (case fetch req of
          Rejected e \<Rightarrow> snd run = Inl e
        | Resolved response \<Rightarrow>
            if ok response then snd run = json_result response
            else (\<exists>msg. snd run = Inl (Error msg)
                    \<and> sublist (show_nat (status response)) msg
                    \<and> sublist (case text_result response of
                                 Inl e \<Rightarrow> ''Unknown error'' | Inr txt \<Rightarrow> txt) msg))"
proof (intro exI conjI)
  show "fst run = [req]" by (simp add: run)
  show "case fetch req of
          Rejected e \<Rightarrow> snd run = Inl e
        | Resolved response \<Rightarrow>
            if ok response then snd run = json_result response
            else (\<exists>msg. snd run = Inl (Error msg)
                    \<and> sublist (show_nat (status response)) msg
                    \<and> sublist (case text_result response of
                                 Inl e \<Rightarrow> ''Unknown error'' | Inr txt \<Rightarrow> txt) msg)"
  proof (cases "fetch req")
    case (Rejected e)
    then show ?thesis by (simp add: run)
  next
    case (Resolved response)
    show ?thesis
    proof (cases "ok response")
      case True
      with Resolved show ?thesis by (simp add: run)
    next
      case False
      let ?txt = "case text_result response of Inl e \<Rightarrow> ''Unknown error'' | Inr txt \<Rightarrow> txt"
      have "snd run = Inl (Error (pre @ show_nat (status response) @ sep @ ?txt))"
        using Resolved False by (simp add: run)
      moreover have "sublist (show_nat (status response))
          (pre @ show_nat (status response) @ sep @ ?txt)"
        by (rule sublist_mid)
      moreover have "sublist ?txt (pre @ show_nat (status response) @ sep @ ?txt)"
        by (rule sublist_end3)
      ultimately have "\<exists>msg. snd run = Inl (Error msg)
          \<and> sublist (show_nat (status response)) msg \<and> sublist ?txt msg"
        by blast
      with Resolved False show ?thesis by simp
    qed
  qed
qed

lemma checkHealth_run:
  "checkHealth cfg fetch =
     ([\<lparr>url = API_BASE_URL cfg @ ENDPOINTS_HEALTH cfg, http_method = ''GET'',
        body = None, headers = []\<rparr>],
      case fetch \<lparr>url = API_BASE_URL cfg @ ENDPOINTS_HEALTH cfg, http_method = ''GET'',
                  body = None, headers = []\<rparr> of
        Rejected e \<Rightarrow> Inl e
      | Resolved response \<Rightarrow>
          if ok response then json_result response
          else Inl (Error ''Backend is not reachable''))"
  by (simp add: checkHealth_def Let_def split: fetch_outcome.split)

lemma buildFormData_list:
  "buildFormData payload =
     [(''file'', Blob (file_field payload)), (''title'', Text (title payload))]
     @ (case description payload of
          None \<Rightarrow> [] | Some d \<Rightarrow> if d \<noteq> [] then [(''description'', Text d)] else [])
     @ [(''location_type'', Text (locationType payload))]
     @ (case locationDetail payload of
          None \<Rightarrow> [] | Some d \<Rightarrow> if d \<noteq> [] then [(''location_detail'', Text d)] else [])
     @ [(''time_frame'', Text (timeFrame payload))]"
  by (simp add: buildFormData_def Let_def append_entry_def split: option.split)

lemma instanceof_Error_always: "instanceof_Error e"
  by (cases e) simp_all

lemma handleSubmit_valid:
  assumes "image_field (formData s) = Some img" "where_field (formData s) \<noteq> []"
    "when_field (formData s) \<noteq> []"
  shows "handleSubmit cfg t fetch s =
     (case snd (submitFn (reportType s = lost) cfg fetch
                 (build_payload (reportType s = lost) (formData s) img)) of
        Inl err \<Rightarrow> s\<lparr>isSubmitting := False, error := Some (message err)\<rparr>
      | Inr response \<Rightarrow>
          s\<lparr>isSubmitting := False, error := None, matches := response_matches response,
            showSuccessModal := True, formData := empty_form\<rparr>,
      fst (submitFn (reportType s = lost) cfg fetch
             (build_payload (reportType s = lost) (formData s) img)))"
  using assms
  by (simp add: handleSubmit_def Let_def instanceof_Error_always
      split: prod.split sum.split)

lemma handleSubmit_invalid:
  "image_field (formData s) = None \<or> where_field (formData s) = [] \<or> when_field (formData s) = []
   \<Longrightarrow> handleSubmit cfg t fetch s =
     (s\<lparr>error := Some (t (if image_field (formData s) = None then ''error_image_required''
                           else if where_field (formData s) = [] then ''error_location_required''
                           else ''error_time_required''))\<rparr>, [])"
  by (auto simp: handleSubmit_def split: option.split)

lemma submitFn_requests:
  "fst (submitFn isLost cfg fetch payload) =
     [\<lparr>url = API_BASE_URL cfg @ (if isLost then ENDPOINTS_LOST cfg else ENDPOINTS_FOUND cfg),
       http_method = ''POST'', body = Some (buildFormData payload),
       headers = [(''Content-Type'', ''multipart/form-data'')]\<rparr>]"
  by (simp add: submitFn_def submitLostItem_run submitFoundItem_run)

lemma example_screen_valid:
  "image_field (formData example_screen) = Some example_file"
  "where_field (formData example_screen) \<noteq> []"
  "when_field (formData example_screen) \<noteq> []"
  "reportType example_screen = lost"
  by (simp_all add: example_screen_def example_form_def)

lemma example_submit_down:
  "snd (submitFn True example_config (always_respond network_failure)
         (build_payload True (formData example_screen) example_file))
     = Inl (TypeError ''Network request failed'')"
  by (simp add: submitFn_def submitLostItem_run always_respond_def network_failure_def)

lemma example_submit_200:
  "snd (submitFn True example_config (always_respond (Resolved response_200))
         (build_payload True (formData example_screen) example_file))
     = Inr \<lparr>response_matches = [example_match 1 (Fin (3 / 4))]\<rparr>"
  by (simp add: submitFn_def submitLostItem_run always_respond_def response_200_def ok_def)

section \<open>Match classifier: the claims\<close>

text \<open>
  C1. The visible matches are exactly the results whose similarity is \<^verbatim>\<open>>=\<close> the match
  threshold, in the order of the backend response: the loop of \<^verbatim>\<open>filter\<close> computes the
  list \<open>filter\<close> of HOL, which is a subsequence of the input. The comparison is inclusive: a
  result whose similarity is the threshold itself is kept. When every similarity is a
  number between 0 and 1, the threshold 0 keeps the whole list and the threshold 1.01 (the
  binary64 value of that literal) keeps nothing. The empty list gives the empty list; the
  model has no error value because the expression cannot throw on an array.
\<close>

theorem filteredMatches_exact:
  "filteredMatches cfg rs = filter (\<lambda>m. js_ge (similarity m) (MATCH_THRESHOLD cfg)) rs
   \<and> subseq (filteredMatches cfg rs) rs
   \<and> (m \<in> set rs \<and> similarity m = MATCH_THRESHOLD cfg \<and> similarity m \<noteq> NaN \<longrightarrow>
        m \<in> set (filteredMatches cfg rs))
   \<and> ((\<forall>m\<in>set rs. in_unit_interval (similarity m)) \<longrightarrow>
        filteredMatches (cfg\<lparr>MATCH_THRESHOLD := Fin 0\<rparr>) rs = rs
        \<and> filteredMatches (cfg\<lparr>MATCH_THRESHOLD := round_double (101 / 100)\<rparr>) rs = [])
   \<and> filteredMatches cfg [] = []"
proof -
  have eq: "filteredMatches c rs = filter (\<lambda>m. js_ge (similarity m) (MATCH_THRESHOLD c)) rs"
    for c by (simp add: filteredMatches_def array_filter_eq)
  have sub: "subseq (filteredMatches cfg rs) rs"
    by (simp add: eq)
  have incl: "m \<in> set (filteredMatches cfg rs)"
    if "m \<in> set rs \<and> similarity m = MATCH_THRESHOLD cfg \<and> similarity m \<noteq> NaN"
  proof -
    from that have "similarity m \<noteq> NaN" by blast
    then have "js_ge (similarity m) (similarity m)" by (rule js_ge_refl)
    with that have "js_ge (similarity m) (MATCH_THRESHOLD cfg)" by metis
    with that show ?thesis by (simp add: eq)
  qed
  have all: "filteredMatches (cfg\<lparr>MATCH_THRESHOLD := Fin 0\<rparr>) rs = rs"
    if "\<forall>m\<in>set rs. in_unit_interval (similarity m)"
    using that by (simp add: eq js_ge_unit_0)
  have none: "filteredMatches (cfg\<lparr>MATCH_THRESHOLD := round_double (101 / 100)\<rparr>) rs = []"
    if "\<forall>m\<in>set rs. in_unit_interval (similarity m)"
    using that js_ge_unit_1_01 by (simp only: eq filter_False) simp
  have emp: "filteredMatches cfg [] = []"
    by (simp add: filteredMatches_def array_filter_def)
  from eq [of cfg] sub incl all none emp show ?thesis by blast
qed

theorem filteredMatches_exact_witness:
  "in_unit_interval (similarity (example_match 1 (Fin (3 / 4))))
   \<and> in_unit_interval (similarity (example_match 2 (Fin (1 / 4))))
   \<and> in_unit_interval (similarity (example_match 3 (Fin (1 / 2))))
   \<and> similarity (example_match 3 (Fin (1 / 2))) = MATCH_THRESHOLD example_config
   \<and> example_match 3 (Fin (1 / 2)) \<in> set (filteredMatches example_config
        [example_match 1 (Fin (3 / 4)), example_match 2 (Fin (1 / 4)),
         example_match 3 (Fin (1 / 2))])
   \<and> filteredMatches example_config
        [example_match 1 (Fin (3 / 4)), example_match 2 (Fin (1 / 4)),
         example_match 3 (Fin (1 / 2))]
      = [example_match 1 (Fin (3 / 4)), example_match 3 (Fin (1 / 2))]
   \<and> filteredMatches (example_config\<lparr>MATCH_THRESHOLD := Fin 0\<rparr>)
        [example_match 1 (Fin (3 / 4)), example_match 2 (Fin (1 / 4)),
         example_match 3 (Fin (1 / 2))]
      = [example_match 1 (Fin (3 / 4)), example_match 2 (Fin (1 / 4)),
         example_match 3 (Fin (1 / 2))]
   \<and> filteredMatches (example_config\<lparr>MATCH_THRESHOLD := round_double (101 / 100)\<rparr>)
        [example_match 1 (Fin (3 / 4)), example_match 2 (Fin (1 / 4)),
         example_match 3 (Fin (1 / 2))]
      = []"
proof -
  have h: "\<forall>m\<in>set [example_match 1 (Fin (3 / 4)), example_match 2 (Fin (1 / 4)),
                example_match 3 (Fin (1 / 2))].
             in_unit_interval (similarity m)"
    by (simp add: example_match_def)
  have t: "MATCH_THRESHOLD example_config = Fin (1 / 2)"
    unfolding example_config_def by (simp add: double_half)
  have i: "example_match 3 (Fin (1 / 2))
      \<in> set [example_match 1 (Fin (3 / 4)), example_match 2 (Fin (1 / 4)),
              example_match 3 (Fin (1 / 2))]
    \<and> similarity (example_match 3 (Fin (1 / 2))) = MATCH_THRESHOLD example_config
    \<and> similarity (example_match 3 (Fin (1 / 2))) \<noteq> NaN"
    by (simp add: t) (simp add: example_match_def)
  note th = filteredMatches_exact [of example_config
        "[example_match 1 (Fin (3 / 4)), example_match 2 (Fin (1 / 4)),
          example_match 3 (Fin (1 / 2))]" "example_match 3 (Fin (1 / 2))"]
  from th i have k: "example_match 3 (Fin (1 / 2)) \<in> set (filteredMatches example_config
        [example_match 1 (Fin (3 / 4)), example_match 2 (Fin (1 / 4)),
         example_match 3 (Fin (1 / 2))])"
    by blast
  from th h t have "filteredMatches example_config
        [example_match 1 (Fin (3 / 4)), example_match 2 (Fin (1 / 4)),
         example_match 3 (Fin (1 / 2))]
      = [example_match 1 (Fin (3 / 4)), example_match 3 (Fin (1 / 2))]
   \<and> filteredMatches (example_config\<lparr>MATCH_THRESHOLD := Fin 0\<rparr>)
        [example_match 1 (Fin (3 / 4)), example_match 2 (Fin (1 / 4)),
         example_match 3 (Fin (1 / 2))]
      = [example_match 1 (Fin (3 / 4)), example_match 2 (Fin (1 / 4)),
         example_match 3 (Fin (1 / 2))]
   \<and> filteredMatches (example_config\<lparr>MATCH_THRESHOLD := round_double (101 / 100)\<rparr>)
        [example_match 1 (Fin (3 / 4)), example_match 2 (Fin (1 / 4)),
         example_match 3 (Fin (1 / 2))]
      = []"
    by (simp add: example_match_def)
  with h i k show ?thesis by simp
qed

text \<open>
  C2. The status tag of a converted match is \<open>high\<close> exactly when the similarity is
  \<^verbatim>\<open>>=\<close> the high threshold, and \<open>possible\<close> otherwise. The comparison is inclusive:
  a similarity equal to the threshold is tagged \<open>high\<close> (for every number; NaN compares
  false with itself). The tag depends on the similarity and the threshold only: two
  conversions with the same similarity and threshold give the same tag, whatever the other
  arguments are.
\<close>

theorem convertToMatch_status:
  "(match_status (convertToMatch cfg t rt m) = high
      \<longleftrightarrow> js_ge (similarity m) (HIGH_MATCH_THRESHOLD cfg))
   \<and> (match_status (convertToMatch cfg t rt m) = possible
      \<longleftrightarrow> \<not> js_ge (similarity m) (HIGH_MATCH_THRESHOLD cfg))
   \<and> (similarity m \<noteq> NaN \<and> similarity m = HIGH_MATCH_THRESHOLD cfg
      \<longrightarrow> match_status (convertToMatch cfg t rt m) = high)
   \<and> (similarity m = similarity m' \<and> HIGH_MATCH_THRESHOLD cfg = HIGH_MATCH_THRESHOLD cfg'
      \<longrightarrow> match_status (convertToMatch cfg t rt m) = match_status (convertToMatch cfg' t' rt' m'))"
proof -
  have a: "match_status (convertToMatch cfg t rt m) = high
      \<longleftrightarrow> js_ge (similarity m) (HIGH_MATCH_THRESHOLD cfg)"
    by (simp add: match_status_convertToMatch)
  have b: "match_status (convertToMatch cfg t rt m) = possible
      \<longleftrightarrow> \<not> js_ge (similarity m) (HIGH_MATCH_THRESHOLD cfg)"
    by (simp add: match_status_convertToMatch)
  have c: "match_status (convertToMatch cfg t rt m) = high"
    if "similarity m \<noteq> NaN \<and> similarity m = HIGH_MATCH_THRESHOLD cfg"
  proof -
    from that have "similarity m \<noteq> NaN" by blast
    then have "js_ge (similarity m) (similarity m)" by (rule js_ge_refl)
    with that have "js_ge (similarity m) (HIGH_MATCH_THRESHOLD cfg)" by metis
    then show ?thesis by (simp only: a)
  qed
  have d: "match_status (convertToMatch cfg t rt m) = match_status (convertToMatch cfg' t' rt' m')"
    if "similarity m = similarity m' \<and> HIGH_MATCH_THRESHOLD cfg = HIGH_MATCH_THRESHOLD cfg'"
    using that by (simp only: match_status_convertToMatch)
  from a b c d show ?thesis by blast
qed

theorem convertToMatch_status_witness:
  "similarity (example_match 1 (HIGH_MATCH_THRESHOLD example_config)) \<noteq> NaN
   \<and> similarity (example_match 1 (HIGH_MATCH_THRESHOLD example_config))
       = HIGH_MATCH_THRESHOLD example_config
   \<and> similarity (example_match 1 (HIGH_MATCH_THRESHOLD example_config))
       = similarity (example_match 2 (HIGH_MATCH_THRESHOLD example_config))
   \<and> match_status (convertToMatch example_config example_t lost
        (example_match 1 (HIGH_MATCH_THRESHOLD example_config))) = high
   \<and> match_status (convertToMatch example_config example_t found
        (example_match 2 (HIGH_MATCH_THRESHOLD example_config))) = high"
proof -
  have n: "similarity (example_match 1 (HIGH_MATCH_THRESHOLD example_config)) \<noteq> NaN"
    by (simp add: example_match_def example_config_def double_0_85)
  have e: "similarity (example_match i (HIGH_MATCH_THRESHOLD example_config))
      = HIGH_MATCH_THRESHOLD example_config" for i
    by (simp add: example_match_def)
  note th = convertToMatch_status [of example_config example_t lost
        "example_match 1 (HIGH_MATCH_THRESHOLD example_config)"
        "example_match 2 (HIGH_MATCH_THRESHOLD example_config)"
        example_config example_t found]
  from th n e [of 1] have h: "match_status (convertToMatch example_config example_t lost
        (example_match 1 (HIGH_MATCH_THRESHOLD example_config))) = high" by blast
  from th e [of 1] e [of 2] have "match_status (convertToMatch example_config example_t lost
        (example_match 1 (HIGH_MATCH_THRESHOLD example_config)))
     = match_status (convertToMatch example_config example_t found
        (example_match 2 (HIGH_MATCH_THRESHOLD example_config)))" by metis
  with h have "match_status (convertToMatch example_config example_t found
        (example_match 2 (HIGH_MATCH_THRESHOLD example_config))) = high" by simp
  with h n e [of 1] e [of 2] show ?thesis by simp
qed

text \<open>
  C5. For a similarity between 0 and 1 the binary64 product with 100 is a finite number
  \<open>y\<close> between 0 and 100, and the displayed percentage is the integer \<open>p\<close> with
  \<open>p - 1/2 \<le> y < p + 1/2\<close>: the nearest integer, a tie going up. The similarity 0.744
  displays as 74 and the similarity 0.745 as 75 (each literal read as its binary64 value; the
  binary64 product of the second is exactly 74.5). The percentage depends on the similarity
  only, so repeated computations agree. The product \<open>y\<close> is the one the program computes:
  \<open>percent_0_145\<close> shows a decimal numeral whose exact product with 100 is a tie and
  whose binary64 product is not.
\<close>

theorem convertToMatch_percentage:
  "(in_unit_interval (similarity m) \<longrightarrow>
      (\<exists>y p. js_mul (similarity m) (Fin 100) = Fin y
         \<and> match_similarity (convertToMatch cfg t rt m) = Fin (of_int p)
         \<and> of_int p - 1 / 2 \<le> y \<and> y < of_int p + 1 / 2 \<and> 0 \<le> p \<and> p \<le> 100))
   \<and> match_similarity (convertToMatch cfg t rt (m\<lparr>similarity := round_double (744 / 1000)\<rparr>))
       = Fin 74
   \<and> match_similarity (convertToMatch cfg t rt (m\<lparr>similarity := round_double (745 / 1000)\<rparr>))
       = Fin 75
   \<and> (similarity m = similarity m' \<longrightarrow>
        match_similarity (convertToMatch cfg t rt m)
          = match_similarity (convertToMatch cfg' t' rt' m'))"
proof -
  have a: "match_similarity (convertToMatch cfg t rt (m\<lparr>similarity := round_double (744 / 1000)\<rparr>))
      = Fin 74"
    by (simp only: match_similarity_convertToMatch similarity_update percent_0_744)
  have b: "match_similarity (convertToMatch cfg t rt (m\<lparr>similarity := round_double (745 / 1000)\<rparr>))
      = Fin 75"
    by (simp only: match_similarity_convertToMatch similarity_update percent_0_745)
  have c: "in_unit_interval (similarity m) \<longrightarrow>
      (\<exists>y p. js_mul (similarity m) (Fin 100) = Fin y
         \<and> match_similarity (convertToMatch cfg t rt m) = Fin (of_int p)
         \<and> of_int p - 1 / 2 \<le> y \<and> y < of_int p + 1 / 2 \<and> 0 \<le> p \<and> p \<le> 100)"
    using percent_unit [of "similarity m"] by (simp only: match_similarity_convertToMatch) blast
  have d: "similarity m = similarity m' \<longrightarrow>
        match_similarity (convertToMatch cfg t rt m)
          = match_similarity (convertToMatch cfg' t' rt' m')"
    by (simp only: match_similarity_convertToMatch) simp
  from a b c d show ?thesis by (intro conjI)
qed

theorem convertToMatch_percentage_witness:
  "in_unit_interval (similarity (example_match 1 (round_double (745 / 1000))))
   \<and> similarity (example_match 1 (round_double (745 / 1000)))
       = similarity (example_match 2 (round_double (745 / 1000)))
   \<and> match_similarity (convertToMatch example_config example_t lost
        (example_match 1 (round_double (745 / 1000)))) = Fin 75
   \<and> match_similarity (convertToMatch example_config example_t found
        (example_match 2 (round_double (745 / 1000)))) = Fin 75"
proof -
  have u: "in_unit_interval (similarity (example_match 1 (round_double (745 / 1000))))"
    by (simp add: example_match_def round_double_eval)
  have e: "similarity (example_match 1 (round_double (745 / 1000)))
       = similarity (example_match 2 (round_double (745 / 1000)))"
    by (simp add: example_match_def)
  have m: "(example_match 1 (round_double (745 / 1000)))\<lparr>similarity := round_double (745 / 1000)\<rparr>
       = example_match 1 (round_double (745 / 1000))"
    by (simp add: example_match_def)
  note th = convertToMatch_percentage [of "example_match 1 (round_double (745 / 1000))"
      example_config example_t lost "example_match 2 (round_double (745 / 1000))"
      example_config example_t found]
  from th u have "\<exists>y p. js_mul (similarity (example_match 1 (round_double (745 / 1000)))) (Fin 100)
        = Fin y
      \<and> match_similarity (convertToMatch example_config example_t lost
           (example_match 1 (round_double (745 / 1000)))) = Fin (of_int p)
      \<and> of_int p - 1 / 2 \<le> y \<and> y < of_int p + 1 / 2 \<and> 0 \<le> p \<and> p \<le> 100"
    by blast
  from th have a: "match_similarity (convertToMatch example_config example_t lost
        (example_match 1 (round_double (745 / 1000)))) = Fin 75"
    by (simp only: m)
  from th e have "match_similarity (convertToMatch example_config example_t lost
        (example_match 1 (round_double (745 / 1000))))
      = match_similarity (convertToMatch example_config example_t found
        (example_match 2 (round_double (745 / 1000))))"
    by blast
  with a have "match_similarity (convertToMatch example_config example_t found
        (example_match 2 (round_double (745 / 1000)))) = Fin 75"
    by simp
  with u e a show ?thesis by (intro conjI)
qed

text \<open>
  C8. The item card shows its high-match indicator exactly when some match of the list has a
  display similarity \<^verbatim>\<open>>=\<close> 75. The constant 75 is compared with the rounded percentage and
  is not the configured high threshold: with the high threshold 0.85 a similarity of 0.8
  (percentage 80) raises the indicator while its status tag is \<open>possible\<close>, and with the
  high threshold 0.7 a similarity of 0.72 (percentage 72) is tagged \<open>high\<close> without
  raising the indicator.
\<close>

theorem hasHighMatch_iff:
  "(hasHighMatch ms \<longleftrightarrow> (\<exists>m\<in>set ms. js_ge (match_similarity m) (Fin 75)))
   \<and> hasHighMatch
       [convertToMatch (cfg\<lparr>HIGH_MATCH_THRESHOLD := round_double (85 / 100)\<rparr>) t rt
          (r\<lparr>similarity := round_double (8 / 10)\<rparr>)]
   \<and> match_status
       (convertToMatch (cfg\<lparr>HIGH_MATCH_THRESHOLD := round_double (85 / 100)\<rparr>) t rt
          (r\<lparr>similarity := round_double (8 / 10)\<rparr>)) = possible
   \<and> \<not> hasHighMatch
       [convertToMatch (cfg\<lparr>HIGH_MATCH_THRESHOLD := round_double (7 / 10)\<rparr>) t rt
          (r\<lparr>similarity := round_double (72 / 100)\<rparr>)]
   \<and> match_status
       (convertToMatch (cfg\<lparr>HIGH_MATCH_THRESHOLD := round_double (7 / 10)\<rparr>) t rt
          (r\<lparr>similarity := round_double (72 / 100)\<rparr>)) = high"
proof -
  have a: "hasHighMatch ms \<longleftrightarrow> (\<exists>m\<in>set ms. js_ge (match_similarity m) (Fin 75))" for ms
    by (simp add: hasHighMatch_def array_some_iff)
  have b: "hasHighMatch [convertToMatch c t rt (r\<lparr>similarity := round_double (8 / 10)\<rparr>)]" for c
    unfolding a by (simp only: list.set ball_simps bex_simps match_similarity_convertToMatch similarity_update percent_0_8) simp
  have c: "\<not> hasHighMatch [convertToMatch c t rt (r\<lparr>similarity := round_double (72 / 100)\<rparr>)]" for c
    unfolding a by (simp only: list.set ball_simps bex_simps match_similarity_convertToMatch similarity_update percent_0_72) simp
  have d: "match_status
       (convertToMatch (cfg\<lparr>HIGH_MATCH_THRESHOLD := round_double (85 / 100)\<rparr>) t rt
          (r\<lparr>similarity := round_double (8 / 10)\<rparr>)) = possible"
    by (simp only: match_status_convertToMatch similarity_update threshold_update status_0_8 if_False)
  have e: "match_status
       (convertToMatch (cfg\<lparr>HIGH_MATCH_THRESHOLD := round_double (7 / 10)\<rparr>) t rt
          (r\<lparr>similarity := round_double (72 / 100)\<rparr>)) = high"
    by (simp only: match_status_convertToMatch similarity_update threshold_update status_0_72 if_True)
  from a [of ms] b c d e show ?thesis by (intro conjI)
qed

theorem hasHighMatch_iff_witness:
  "js_ge (match_similarity (convertToMatch example_config example_t lost
      (example_match 1 (round_double (8 / 10))))) (Fin 75)
   \<and> hasHighMatch [convertToMatch example_config example_t lost
        (example_match 1 (round_double (8 / 10)))]
   \<and> \<not> hasHighMatch []"
proof -
  have g: "js_ge (match_similarity (convertToMatch example_config example_t lost
      (example_match 1 (round_double (8 / 10))))) (Fin 75)"
    by (simp only: match_similarity_convertToMatch example_match_def MatchResult.select_convs
        percent_0_8) simp
  from g hasHighMatch_iff [of "[convertToMatch example_config example_t lost
      (example_match 1 (round_double (8 / 10)))]"]
  have "hasHighMatch [convertToMatch example_config example_t lost
        (example_match 1 (round_double (8 / 10)))]"
    by simp
  moreover from hasHighMatch_iff [of "[]"] have "\<not> hasHighMatch []" by simp
  ultimately show ?thesis using g by (intro conjI)
qed

section \<open>API client: the claims\<close>

text \<open>
  C3. \<open>buildImageUrl\<close> returns the empty string for the empty string. Otherwise it puts a
  slash for every backslash (no backslash remains); a normalized string that starts with
  \<^verbatim>\<open>http://\<close> or \<^verbatim>\<open>https://\<close> is the result as it is; any other one is appended to
  the base URL, after a slash when it does not start with one, so that a path with a leading
  slash gets no second slash. The four examples of the spec are instances.
\<close>

theorem buildImageUrl_cases:
  "buildImageUrl cfg p =
     (if p = [] then []
      else if prefix ''http://'' (map (\<lambda>c. if c = CHR 0x5C then CHR ''/'' else c) p)
              \<or> prefix ''https://'' (map (\<lambda>c. if c = CHR 0x5C then CHR ''/'' else c) p)
           then map (\<lambda>c. if c = CHR 0x5C then CHR ''/'' else c) p
      else if prefix ''/'' (map (\<lambda>c. if c = CHR 0x5C then CHR ''/'' else c) p)
           then API_BASE_URL cfg @ map (\<lambda>c. if c = CHR 0x5C then CHR ''/'' else c) p
      else API_BASE_URL cfg @ ''/'' @ map (\<lambda>c. if c = CHR 0x5C then CHR ''/'' else c) p)
   \<and> CHR 0x5C \<notin> set (map (\<lambda>c. if c = CHR 0x5C then CHR ''/'' else c) p)
   \<and> buildImageUrl cfg (''uploads'' @ [CHR 0x5C] @ ''a'' @ [CHR 0x5C] @ ''b.png'')
       = API_BASE_URL cfg @ ''/uploads/a/b.png''
   \<and> buildImageUrl cfg ''uploads/a.png'' = API_BASE_URL cfg @ ''/uploads/a.png''
   \<and> buildImageUrl cfg ''/uploads/a.png'' = API_BASE_URL cfg @ ''/uploads/a.png''
   \<and> buildImageUrl cfg ''http://x/y.png'' = ''http://x/y.png''"
proof -
  have a: "buildImageUrl cfg p =
     (if p = [] then []
      else if prefix ''http://'' (map (\<lambda>c. if c = CHR 0x5C then CHR ''/'' else c) p)
              \<or> prefix ''https://'' (map (\<lambda>c. if c = CHR 0x5C then CHR ''/'' else c) p)
           then map (\<lambda>c. if c = CHR 0x5C then CHR ''/'' else c) p
      else if prefix ''/'' (map (\<lambda>c. if c = CHR 0x5C then CHR ''/'' else c) p)
           then API_BASE_URL cfg @ map (\<lambda>c. if c = CHR 0x5C then CHR ''/'' else c) p
      else API_BASE_URL cfg @ ''/'' @ map (\<lambda>c. if c = CHR 0x5C then CHR ''/'' else c) p)"
    unfolding buildImageUrl_def Let_def startsWith_prefix replace_backslashes_map by simp
  have b: "CHR 0x5C \<notin> set (map (\<lambda>c. if c = CHR 0x5C then CHR ''/'' else c) p)"
    by (rule map_no_backslash)
  have c: "buildImageUrl cfg (''uploads'' @ [CHR 0x5C] @ ''a'' @ [CHR 0x5C] @ ''b.png'')
       = API_BASE_URL cfg @ ''/uploads/a/b.png''"
    by (simp add: buildImageUrl_def)
  have d: "buildImageUrl cfg ''uploads/a.png'' = API_BASE_URL cfg @ ''/uploads/a.png''"
    by (simp add: buildImageUrl_def)
  have e: "buildImageUrl cfg ''/uploads/a.png'' = API_BASE_URL cfg @ ''/uploads/a.png''"
    by (simp add: buildImageUrl_def)
  have f: "buildImageUrl cfg ''http://x/y.png'' = ''http://x/y.png''"
    by (simp add: buildImageUrl_def)
  from a b c d e f show ?thesis by (intro conjI)
qed

theorem buildImageUrl_cases_witness:
  "buildImageUrl example_config [] = []
   \<and> buildImageUrl example_config (''uploads'' @ [CHR 0x5C] @ ''a.png'')
       = ''http://10.0.2.2:8000/uploads/a.png''
   \<and> buildImageUrl example_config (''https:'' @ [CHR 0x5C, CHR 0x5C] @ ''cdn/a.png'')
       = ''https://cdn/a.png''"
proof -
  have "buildImageUrl example_config [] = []"
    using buildImageUrl_cases [of example_config "[]"] by simp
  moreover have "buildImageUrl example_config (''uploads'' @ [CHR 0x5C] @ ''a.png'')
       = ''http://10.0.2.2:8000/uploads/a.png''"
    using buildImageUrl_cases [of example_config "''uploads'' @ [CHR 0x5C] @ ''a.png''"]
    by (simp add: example_config_def)
  moreover have "buildImageUrl example_config (''https:'' @ [CHR 0x5C, CHR 0x5C] @ ''cdn/a.png'')
       = ''https://cdn/a.png''"
    using buildImageUrl_cases [of example_config "''https:'' @ [CHR 0x5C, CHR 0x5C] @ ''cdn/a.png''"]
    by simp
  ultimately show ?thesis by (intro conjI)
qed

text \<open>
  C4. Each submission issues exactly one request. When the backend answers with a status
  outside 200 to 299, the call throws an \<^verbatim>\<open>Error\<close> whose message contains the decimal
  status code and the text of the body, or the placeholder \<^verbatim>\<open>Unknown error\<close> when the body
  cannot be read. When no response arrives, the rejection of \<^verbatim>\<open>fetch\<close> is thrown as it is:
  nothing is added to it, so it carries no status code, and it differs from the error of
  the status case. The status 500 with the body \<^verbatim>\<open>boom\<close> gives the message
  \<^verbatim>\<open>Failed to submit lost item: 500 - boom\<close>.
\<close>

theorem submit_failure_errors:
  "(\<exists>req. fst (submitLostItem cfg fetch payload) = [req]
     \<and> (case fetch req of
          Rejected e \<Rightarrow> snd (submitLostItem cfg fetch payload) = Inl e
        | Resolved response \<Rightarrow>
            if ok response then snd (submitLostItem cfg fetch payload) = json_result response
            else (\<exists>msg. snd (submitLostItem cfg fetch payload) = Inl (Error msg)
                    \<and> sublist (show_nat (status response)) msg
                    \<and> sublist (case text_result response of
                                 Inl e \<Rightarrow> ''Unknown error'' | Inr txt \<Rightarrow> txt) msg)))
   \<and> (\<exists>req. fst (submitFoundItem cfg fetch payload) = [req]
     \<and> (case fetch req of
          Rejected e \<Rightarrow> snd (submitFoundItem cfg fetch payload) = Inl e
        | Resolved response \<Rightarrow>
            if ok response then snd (submitFoundItem cfg fetch payload) = json_result response
            else (\<exists>msg. snd (submitFoundItem cfg fetch payload) = Inl (Error msg)
                    \<and> sublist (show_nat (status response)) msg
                    \<and> sublist (case text_result response of
                                 Inl e \<Rightarrow> ''Unknown error'' | Inr txt \<Rightarrow> txt) msg)))
   \<and> snd (submitLostItem cfg (always_respond (Resolved response_500)) payload)
       = Inl (Error ''Failed to submit lost item: 500 - boom'')
   \<and> snd (submitFoundItem cfg (always_respond (Resolved response_500)) payload)
       = Inl (Error ''Failed to submit found item: 500 - boom'')
   \<and> snd (submitLostItem cfg (always_respond network_failure) payload)
       = Inl (TypeError ''Network request failed'')
   \<and> snd (submitFoundItem cfg (always_respond network_failure) payload)
       = Inl (TypeError ''Network request failed'')
   \<and> snd (submitLostItem cfg (always_respond network_failure) payload)
       \<noteq> snd (submitLostItem cfg (always_respond (Resolved response_500)) payload)
   \<and> snd (submitFoundItem cfg (always_respond network_failure) payload)
       \<noteq> snd (submitFoundItem cfg (always_respond (Resolved response_500)) payload)"
proof -
  note a = submit_outcome [where fetch = fetch and pre = "''Failed to submit lost item: ''"
      and sep = "'' - ''", OF submitLostItem_run [of cfg fetch payload]]
  note b = submit_outcome [where fetch = fetch and pre = "''Failed to submit found item: ''"
      and sep = "'' - ''", OF submitFoundItem_run [of cfg fetch payload]]
  have e: "snd (submitLostItem cfg (always_respond (Resolved response_500)) payload)
       = Inl (Error ''Failed to submit lost item: 500 - boom'')"
    by (simp add: submitLostItem_run always_respond_def response_500_def ok_def
        show_nat_500)
  have f: "snd (submitFoundItem cfg (always_respond (Resolved response_500)) payload)
       = Inl (Error ''Failed to submit found item: 500 - boom'')"
    by (simp add: submitFoundItem_run always_respond_def response_500_def ok_def
        show_nat_500)
  have g: "snd (submitLostItem cfg (always_respond network_failure) payload)
       = Inl (TypeError ''Network request failed'')"
    by (simp add: submitLostItem_run always_respond_def network_failure_def)
  have h: "snd (submitFoundItem cfg (always_respond network_failure) payload)
       = Inl (TypeError ''Network request failed'')"
    by (simp add: submitFoundItem_run always_respond_def network_failure_def)
  have i: "snd (submitLostItem cfg (always_respond network_failure) payload)
       \<noteq> snd (submitLostItem cfg (always_respond (Resolved response_500)) payload)"
    by (simp only: e g) simp
  have j: "snd (submitFoundItem cfg (always_respond network_failure) payload)
       \<noteq> snd (submitFoundItem cfg (always_respond (Resolved response_500)) payload)"
    by (simp only: f h) simp
  from a b e f g h i j show ?thesis by (intro conjI)
qed

theorem submit_failure_errors_witness:
  "fst (submitLostItem example_config (always_respond (Resolved response_500)) example_payload)
     = [\<lparr>url = ''http://10.0.2.2:8000/api/lost'', http_method = ''POST'',
         body = Some (buildFormData example_payload),
         headers = [(''Content-Type'', ''multipart/form-data'')]\<rparr>]
   \<and> \<not> ok response_500
   \<and> snd (submitLostItem example_config (always_respond (Resolved response_500))
        example_payload)
       = Inl (Error ''Failed to submit lost item: 500 - boom'')
   \<and> snd (submitLostItem example_config (always_respond network_failure) example_payload)
       = Inl (TypeError ''Network request failed'')"
proof -
  note th = submit_failure_errors [of example_config "always_respond (Resolved response_500)"
      example_payload]
  have "fst (submitLostItem example_config (always_respond (Resolved response_500))
      example_payload)
     = [\<lparr>url = ''http://10.0.2.2:8000/api/lost'', http_method = ''POST'',
         body = Some (buildFormData example_payload),
         headers = [(''Content-Type'', ''multipart/form-data'')]\<rparr>]"
    by (simp add: submitLostItem_run example_config_def)
  moreover have "\<not> ok response_500" by (simp add: ok_def response_500_def)
  ultimately show ?thesis using th by simp
qed

text \<open>
  C6, as stated: every failure of \<open>checkHealth\<close>, a network error included, gives the
  generic error \<^verbatim>\<open>Backend is not reachable\<close>. It fails when \<^verbatim>\<open>fetch\<close> rejects: the
  rejection is not caught, and the caller gets the \<^verbatim>\<open>TypeError\<close> of the transport.
\<close>

theorem checkHealth_network_error_counterexample:
  "snd (checkHealth example_config (always_respond example_health_down))
     = Inl (TypeError ''Network request failed'')
   \<and> snd (checkHealth example_config (always_respond example_health_down))
     \<noteq> Inl (Error ''Backend is not reachable'')"
  by (simp add: checkHealth_run always_respond_def example_health_down_def)

text \<open>
  C6, amended. \<open>checkHealth\<close> issues one request. On every status outside 200 to 299 it
  throws the generic error \<^verbatim>\<open>Backend is not reachable\<close>, whatever the body of the response
  is: the body is not forwarded. A network error is thrown as \<^verbatim>\<open>fetch\<close> rejected it; no
  response body exists then.
\<close>

theorem checkHealth_failure:
  "(\<exists>req. fst (checkHealth cfg fetch) = [req]
      \<and> (case fetch req of
           Rejected e \<Rightarrow> snd (checkHealth cfg fetch) = Inl e
         | Resolved response \<Rightarrow>
             if ok response then snd (checkHealth cfg fetch) = json_result response
             else snd (checkHealth cfg fetch) = Inl (Error ''Backend is not reachable'')))
   \<and> (\<not> ok response \<longrightarrow>
        snd (checkHealth cfg (always_respond (Resolved response)))
          = Inl (Error ''Backend is not reachable'')
        \<and> snd (checkHealth cfg (always_respond (Resolved (response\<lparr>text_result := txt\<rparr>))))
          = snd (checkHealth cfg (always_respond (Resolved response))))"
proof -
  have a: "\<exists>req. fst (checkHealth cfg fetch) = [req]
      \<and> (case fetch req of
           Rejected e \<Rightarrow> snd (checkHealth cfg fetch) = Inl e
         | Resolved response \<Rightarrow>
             if ok response then snd (checkHealth cfg fetch) = json_result response
             else snd (checkHealth cfg fetch) = Inl (Error ''Backend is not reachable''))"
    by (simp add: checkHealth_run split: fetch_outcome.split)
  have b: "\<not> ok response \<longrightarrow>
        snd (checkHealth cfg (always_respond (Resolved response)))
          = Inl (Error ''Backend is not reachable'')
        \<and> snd (checkHealth cfg (always_respond (Resolved (response\<lparr>text_result := txt\<rparr>))))
          = snd (checkHealth cfg (always_respond (Resolved response)))"
    by (simp add: checkHealth_run always_respond_def ok_def)
  from a b show ?thesis by (intro conjI)
qed

theorem checkHealth_failure_witness:
  "\<not> ok response_503
   \<and> snd (checkHealth example_config (always_respond (Resolved
        response_503)))
       = Inl (Error ''Backend is not reachable'')
   \<and> snd (checkHealth example_config (always_respond example_health_down))
       = Inl (TypeError ''Network request failed'')"
proof -
  have n: "\<not> ok response_503"
    by (simp add: ok_def response_503_def)
  note th = checkHealth_failure [of example_config "always_respond example_health_down"
      "response_503"
      "Inr ''maintenance''"]
  from th n have "snd (checkHealth example_config (always_respond (Resolved
        response_503)))
       = Inl (Error ''Backend is not reachable'')"
    by blast
  moreover from th have "snd (checkHealth example_config (always_respond example_health_down))
       = Inl (TypeError ''Network request failed'')"
    by (auto simp: always_respond_def example_health_down_def)
  ultimately show ?thesis using n by (intro conjI)
qed

text \<open>
  C7, as stated: the key \<^verbatim>\<open>description\<close> is in the body exactly when the payload has the
  optional field. It fails for a payload whose description is the empty string: the field
  is present and the key is not appended, because the guard of \<open>buildFormData\<close> tests the
  truthiness of the field.
\<close>

theorem buildFormData_present_counterexample:
  "description (example_payload\<lparr>description := Some []\<rparr>) \<noteq> None
   \<and> ''description'' \<notin> set (map fst (buildFormData (example_payload\<lparr>description := Some []\<rparr>)))"
  by (simp add: buildFormData_list example_payload_def)

text \<open>
  C7, amended. The body built for a payload has the entry \<^verbatim>\<open>file\<close> with the uri, name and
  type of the payload's file, and the entries \<^verbatim>\<open>title\<close>, \<^verbatim>\<open>location_type\<close> and
  \<^verbatim>\<open>time_frame\<close> with the values of \<open>title\<close>, \<open>locationType\<close> and \<open>timeFrame\<close>, always.
  It has the entry \<^verbatim>\<open>description\<close> (\<^verbatim>\<open>location_detail\<close>) exactly when the field
  \<open>description\<close> (\<open>locationDetail\<close>) is present and not the empty string, with that value.
  It has no other key, and no key twice.
\<close>

theorem buildFormData_fields:
  "map_of (buildFormData payload) ''file''
     = Some (Blob \<lparr>file_uri = file_uri (file_field payload),
                    file_name = file_name (file_field payload),
                    file_type = file_type (file_field payload)\<rparr>)
   \<and> map_of (buildFormData payload) ''title'' = Some (Text (title payload))
   \<and> map_of (buildFormData payload) ''location_type'' = Some (Text (locationType payload))
   \<and> map_of (buildFormData payload) ''time_frame'' = Some (Text (timeFrame payload))
   \<and> map_of (buildFormData payload) ''description''
       = (case description payload of
            None \<Rightarrow> None | Some d \<Rightarrow> if d \<noteq> [] then Some (Text d) else None)
   \<and> map_of (buildFormData payload) ''location_detail''
       = (case locationDetail payload of
            None \<Rightarrow> None | Some d \<Rightarrow> if d \<noteq> [] then Some (Text d) else None)
   \<and> (''description'' \<in> set (map fst (buildFormData payload))
        \<longleftrightarrow> truthy (description payload))
   \<and> (''location_detail'' \<in> set (map fst (buildFormData payload))
        \<longleftrightarrow> truthy (locationDetail payload))
   \<and> set (map fst (buildFormData payload))
       \<subseteq> {''file'', ''title'', ''description'', ''location_type'', ''location_detail'',
           ''time_frame''}
   \<and> distinct (map fst (buildFormData payload))"
proof -
  note body = buildFormData_list [of payload]
  have always: "map_of (buildFormData payload) ''file''
       = Some (Blob \<lparr>file_uri = file_uri (file_field payload),
                      file_name = file_name (file_field payload),
                      file_type = file_type (file_field payload)\<rparr>)
     \<and> map_of (buildFormData payload) ''title'' = Some (Text (title payload))
     \<and> map_of (buildFormData payload) ''location_type'' = Some (Text (locationType payload))
     \<and> map_of (buildFormData payload) ''time_frame'' = Some (Text (timeFrame payload))"
    by (simp add: body split: option.split)
  have optional: "map_of (buildFormData payload) ''description''
       = (case description payload of
            None \<Rightarrow> None | Some d \<Rightarrow> if d \<noteq> [] then Some (Text d) else None)
     \<and> map_of (buildFormData payload) ''location_detail''
       = (case locationDetail payload of
            None \<Rightarrow> None | Some d \<Rightarrow> if d \<noteq> [] then Some (Text d) else None)"
    by (simp add: body split: option.split)
  have keys: "(''description'' \<in> set (map fst (buildFormData payload))
        \<longleftrightarrow> truthy (description payload))
     \<and> (''location_detail'' \<in> set (map fst (buildFormData payload))
        \<longleftrightarrow> truthy (locationDetail payload))"
    by (auto simp: body truthy_def split: option.split)
  have only: "set (map fst (buildFormData payload))
       \<subseteq> {''file'', ''title'', ''description'', ''location_type'', ''location_detail'',
           ''time_frame''}
     \<and> distinct (map fst (buildFormData payload))"
    by (simp add: body split: option.split)
  from always optional keys only show ?thesis by (simp only: simp_thms)
qed

theorem buildFormData_fields_witness:
  "truthy (description example_payload)
   \<and> \<not> truthy (locationDetail example_payload)
   \<and> map_of (buildFormData example_payload) ''description'' = Some (Text ''Black wallet'')
   \<and> ''description'' \<in> set (map fst (buildFormData example_payload))
   \<and> ''location_detail'' \<notin> set (map fst (buildFormData example_payload))"
proof -
  have "truthy (description example_payload)" "\<not> truthy (locationDetail example_payload)"
    by (simp_all add: truthy_def example_payload_def)
  moreover have "description example_payload = Some ''Black wallet''"
    by (simp add: example_payload_def)
  ultimately show ?thesis using buildFormData_fields [of example_payload] by simp
qed

section \<open>Report screen: the claims\<close>

text \<open>
  C9. When the form is valid and the submit call throws, the state after \<open>handleSubmit\<close>
  is the state before it with the error message of the thrown error and the submitting flag
  false: the matches, the visibility of the success modal and the form fields are unchanged.
  On a successful response the matches are replaced, the modal is shown and the form is
  reset. Conversely, whenever the form fields or the visibility of the modal differ after the
  call, the form was valid and the response was successful. The model gives the state after
  all updates of one call; it does not describe how the updates are grouped into renders.
\<close>

theorem handleSubmit_failure_state:
  "(image_field (formData s) = Some img \<and> where_field (formData s) \<noteq> []
      \<and> when_field (formData s) \<noteq> []
      \<and> snd (submitFn (reportType s = lost) cfg fetch
               (build_payload (reportType s = lost) (formData s) img)) = Inl err
    \<longrightarrow> fst (handleSubmit cfg t fetch s)
          = s\<lparr>error := Some (message err), isSubmitting := False\<rparr>
        \<and> matches (fst (handleSubmit cfg t fetch s)) = matches s
        \<and> showSuccessModal (fst (handleSubmit cfg t fetch s)) = showSuccessModal s
        \<and> formData (fst (handleSubmit cfg t fetch s)) = formData s
        \<and> error (fst (handleSubmit cfg t fetch s)) = Some (message err)
        \<and> isSubmitting (fst (handleSubmit cfg t fetch s)) = False)
   \<and> (image_field (formData s) = Some img \<and> where_field (formData s) \<noteq> []
      \<and> when_field (formData s) \<noteq> []
      \<and> snd (submitFn (reportType s = lost) cfg fetch
               (build_payload (reportType s = lost) (formData s) img)) = Inr response
    \<longrightarrow> fst (handleSubmit cfg t fetch s)
          = s\<lparr>isSubmitting := False, error := None, matches := response_matches response,
              showSuccessModal := True, formData := empty_form\<rparr>)
   \<and> (formData (fst (handleSubmit cfg t fetch s)) \<noteq> formData s
        \<or> showSuccessModal (fst (handleSubmit cfg t fetch s)) \<noteq> showSuccessModal s
    \<longrightarrow> (\<exists>img response. image_field (formData s) = Some img
          \<and> snd (submitFn (reportType s = lost) cfg fetch
                   (build_payload (reportType s = lost) (formData s) img)) = Inr response))"
proof -
  have a: "fst (handleSubmit cfg t fetch s)
          = s\<lparr>error := Some (message err), isSubmitting := False\<rparr>
        \<and> matches (fst (handleSubmit cfg t fetch s)) = matches s
        \<and> showSuccessModal (fst (handleSubmit cfg t fetch s)) = showSuccessModal s
        \<and> formData (fst (handleSubmit cfg t fetch s)) = formData s
        \<and> error (fst (handleSubmit cfg t fetch s)) = Some (message err)
        \<and> isSubmitting (fst (handleSubmit cfg t fetch s)) = False"
    if "image_field (formData s) = Some img \<and> where_field (formData s) \<noteq> []
      \<and> when_field (formData s) \<noteq> []
      \<and> snd (submitFn (reportType s = lost) cfg fetch
               (build_payload (reportType s = lost) (formData s) img)) = Inl err"
    using that by (simp add: handleSubmit_valid)
  have b: "fst (handleSubmit cfg t fetch s)
          = s\<lparr>isSubmitting := False, error := None, matches := response_matches response,
              showSuccessModal := True, formData := empty_form\<rparr>"
    if "image_field (formData s) = Some img \<and> where_field (formData s) \<noteq> []
      \<and> when_field (formData s) \<noteq> []
      \<and> snd (submitFn (reportType s = lost) cfg fetch
               (build_payload (reportType s = lost) (formData s) img)) = Inr response"
    using that by (simp add: handleSubmit_valid)
  have c: "\<exists>img response. image_field (formData s) = Some img
          \<and> snd (submitFn (reportType s = lost) cfg fetch
                   (build_payload (reportType s = lost) (formData s) img)) = Inr response"
    if ch: "formData (fst (handleSubmit cfg t fetch s)) \<noteq> formData s
        \<or> showSuccessModal (fst (handleSubmit cfg t fetch s)) \<noteq> showSuccessModal s"
  proof (cases "image_field (formData s) = None \<or> where_field (formData s) = []
      \<or> when_field (formData s) = []")
    case True
    from handleSubmit_invalid [OF True] ch show ?thesis by simp
  next
    case False
    then obtain i where i: "image_field (formData s) = Some i" "where_field (formData s) \<noteq> []"
      "when_field (formData s) \<noteq> []" by auto
    show ?thesis
    proof (cases "snd (submitFn (reportType s = lost) cfg fetch
                   (build_payload (reportType s = lost) (formData s) i))")
      case (Inl e)
      with handleSubmit_valid [OF i, of cfg t fetch] ch show ?thesis by simp
    next
      case (Inr r)
      with i show ?thesis by blast
    qed
  qed
  from a b c show ?thesis by blast
qed

theorem handleSubmit_failure_state_witness:
  "fst (handleSubmit example_config example_t (always_respond network_failure) example_screen)
     = example_screen\<lparr>error := Some ''Network request failed''\<rparr>
   \<and> fst (handleSubmit example_config example_t (always_respond (Resolved response_200))
        example_screen)
     = example_screen\<lparr>matches := [example_match 1 (Fin (3 / 4))], showSuccessModal := True,
         formData := empty_form\<rparr>
   \<and> formData (fst (handleSubmit example_config example_t
        (always_respond (Resolved response_200)) example_screen)) \<noteq> formData example_screen"
proof -
  have 1: "fst (handleSubmit example_config example_t (always_respond network_failure)
        example_screen) = example_screen\<lparr>error := Some ''Network request failed''\<rparr>"
    using example_screen_valid example_submit_down
      handleSubmit_failure_state [where s = example_screen and img = example_file
        and cfg = example_config and fetch = "always_respond network_failure"
        and err = "TypeError ''Network request failed''" and t = example_t]
    by (simp add: example_screen_def)
  have 2: "fst (handleSubmit example_config example_t (always_respond (Resolved response_200))
        example_screen)
     = example_screen\<lparr>matches := [example_match 1 (Fin (3 / 4))], showSuccessModal := True,
         formData := empty_form\<rparr>"
    using example_screen_valid example_submit_200
      handleSubmit_failure_state [where s = example_screen and img = example_file
        and cfg = example_config and fetch = "always_respond (Resolved response_200)"
        and response = "\<lparr>response_matches = [example_match 1 (Fin (3 / 4))]\<rparr>"
        and t = example_t]
    by (simp add: example_screen_def)
  have 3: "formData (fst (handleSubmit example_config example_t
        (always_respond (Resolved response_200)) example_screen)) \<noteq> formData example_screen"
    by (simp only: 2) (simp add: example_screen_def example_form_def empty_form_def)
  from 1 2 3 show ?thesis by (intro conjI)
qed

text \<open>
  C10. \<open>handleSubmit\<close> issues a request only when the image, the location and the time
  frame are all set. A missing image, then a missing location, then a missing time frame
  each end the call with no request and with the error text of that field. When the
  three are set, exactly one request is issued, its body is built from the payload, and the
  title of the payload is not empty: it is the description when the description is not
  empty, and otherwise \<^verbatim>\<open>Lost item at\<close> or \<^verbatim>\<open>Found item at\<close> followed by the
  location.
\<close>

theorem handleSubmit_validation:
  "(snd (handleSubmit cfg t fetch s) \<noteq> [] \<longrightarrow>
      image_field (formData s) \<noteq> None \<and> where_field (formData s) \<noteq> []
      \<and> when_field (formData s) \<noteq> [])
   \<and> (image_field (formData s) = None \<longrightarrow>
        handleSubmit cfg t fetch s = (s\<lparr>error := Some (t ''error_image_required'')\<rparr>, []))
   \<and> (image_field (formData s) \<noteq> None \<and> where_field (formData s) = [] \<longrightarrow>
        handleSubmit cfg t fetch s = (s\<lparr>error := Some (t ''error_location_required'')\<rparr>, []))
   \<and> (image_field (formData s) \<noteq> None \<and> where_field (formData s) \<noteq> []
        \<and> when_field (formData s) = [] \<longrightarrow>
        handleSubmit cfg t fetch s = (s\<lparr>error := Some (t ''error_time_required'')\<rparr>, []))
   \<and> (image_field (formData s) = Some img \<and> where_field (formData s) \<noteq> []
        \<and> when_field (formData s) \<noteq> [] \<longrightarrow>
        (\<exists>req. snd (handleSubmit cfg t fetch s) = [req]
           \<and> body req = Some (buildFormData
                 (build_payload (reportType s = lost) (formData s) img)))
        \<and> title (build_payload (reportType s = lost) (formData s) img) \<noteq> []
        \<and> title (build_payload (reportType s = lost) (formData s) img)
            = (if description_field (formData s) \<noteq> [] then description_field (formData s)
               else (if reportType s = lost then ''Lost'' else ''Found'') @ '' item at ''
                    @ where_field (formData s))
        \<and> map_of (buildFormData (build_payload (reportType s = lost) (formData s) img))
             ''title''
            = Some (Text (title (build_payload (reportType s = lost) (formData s) img))))"
proof -
  have a: "image_field (formData s) \<noteq> None \<and> where_field (formData s) \<noteq> []
      \<and> when_field (formData s) \<noteq> []" if "snd (handleSubmit cfg t fetch s) \<noteq> []"
  proof (rule ccontr)
    assume "\<not> ?thesis"
    then have "image_field (formData s) = None \<or> where_field (formData s) = []
      \<or> when_field (formData s) = []" by blast
    from handleSubmit_invalid [OF this] that show False by simp
  qed
  have b: "handleSubmit cfg t fetch s = (s\<lparr>error := Some (t ''error_image_required'')\<rparr>, [])"
    if "image_field (formData s) = None"
    using that by (simp add: handleSubmit_invalid)
  have c: "handleSubmit cfg t fetch s = (s\<lparr>error := Some (t ''error_location_required'')\<rparr>, [])"
    if "image_field (formData s) \<noteq> None \<and> where_field (formData s) = []"
    using that by (auto simp: handleSubmit_invalid)
  have d: "handleSubmit cfg t fetch s = (s\<lparr>error := Some (t ''error_time_required'')\<rparr>, [])"
    if "image_field (formData s) \<noteq> None \<and> where_field (formData s) \<noteq> []
        \<and> when_field (formData s) = []"
    using that by (auto simp: handleSubmit_invalid)
  have e: "(\<exists>req. snd (handleSubmit cfg t fetch s) = [req]
           \<and> body req = Some (buildFormData
                 (build_payload (reportType s = lost) (formData s) img)))
        \<and> title (build_payload (reportType s = lost) (formData s) img) \<noteq> []
        \<and> title (build_payload (reportType s = lost) (formData s) img)
            = (if description_field (formData s) \<noteq> [] then description_field (formData s)
               else (if reportType s = lost then ''Lost'' else ''Found'') @ '' item at ''
                    @ where_field (formData s))
        \<and> map_of (buildFormData (build_payload (reportType s = lost) (formData s) img))
             ''title''
            = Some (Text (title (build_payload (reportType s = lost) (formData s) img)))"
    if v: "image_field (formData s) = Some img \<and> where_field (formData s) \<noteq> []
        \<and> when_field (formData s) \<noteq> []"
  proof -
    from v have "snd (handleSubmit cfg t fetch s)
        = fst (submitFn (reportType s = lost) cfg fetch
             (build_payload (reportType s = lost) (formData s) img))"
      by (simp add: handleSubmit_valid)
    then have 1: "\<exists>req. snd (handleSubmit cfg t fetch s) = [req]
           \<and> body req = Some (buildFormData
                 (build_payload (reportType s = lost) (formData s) img))"
      by (simp add: submitFn_requests)
    have 2: "title (build_payload (reportType s = lost) (formData s) img)
            = (if description_field (formData s) \<noteq> [] then description_field (formData s)
               else (if reportType s = lost then ''Lost'' else ''Found'') @ '' item at ''
                    @ where_field (formData s))"
      by (simp add: build_payload_def or_else_def)
    have 3: "title (build_payload (reportType s = lost) (formData s) img) \<noteq> []"
      by (simp add: build_payload_def or_else_def)
    have 4: "map_of (buildFormData (build_payload (reportType s = lost) (formData s) img))
             ''title''
            = Some (Text (title (build_payload (reportType s = lost) (formData s) img)))"
      by (simp add: buildFormData_list)
    from 1 2 3 4 show ?thesis by (intro conjI)
  qed
  from a b c d e show ?thesis by blast
qed

theorem handleSubmit_validation_witness:
  "handleSubmit example_config example_t (always_respond network_failure)
      (example_screen\<lparr>formData := empty_form\<rparr>)
     = (example_screen\<lparr>formData := empty_form, error := Some ''error_image_required''\<rparr>, [])
   \<and> handleSubmit example_config example_t (always_respond network_failure)
      (example_screen\<lparr>formData := example_form\<lparr>where_field := []\<rparr>\<rparr>)
     = (example_screen\<lparr>formData := example_form\<lparr>where_field := []\<rparr>,
          error := Some ''error_location_required''\<rparr>, [])
   \<and> handleSubmit example_config example_t (always_respond network_failure)
      (example_screen\<lparr>formData := example_form\<lparr>when_field := []\<rparr>\<rparr>)
     = (example_screen\<lparr>formData := example_form\<lparr>when_field := []\<rparr>,
          error := Some ''error_time_required''\<rparr>, [])
   \<and> snd (handleSubmit example_config example_t (always_respond network_failure)
        example_screen) \<noteq> []
   \<and> title (build_payload True (formData example_screen) example_file) = ''Lost item at Mall''"
proof -
  have 1: "handleSubmit example_config example_t (always_respond network_failure)
      (example_screen\<lparr>formData := empty_form\<rparr>)
     = (example_screen\<lparr>formData := empty_form, error := Some ''error_image_required''\<rparr>, [])"
    using handleSubmit_validation [where s = "example_screen\<lparr>formData := empty_form\<rparr>"
        and cfg = example_config and t = example_t
        and fetch = "always_respond network_failure"]
    by (simp add: empty_form_def example_t_def)
  have 2: "handleSubmit example_config example_t (always_respond network_failure)
      (example_screen\<lparr>formData := example_form\<lparr>where_field := []\<rparr>\<rparr>)
     = (example_screen\<lparr>formData := example_form\<lparr>where_field := []\<rparr>,
          error := Some ''error_location_required''\<rparr>, [])"
    using handleSubmit_validation
      [where s = "example_screen\<lparr>formData := example_form\<lparr>where_field := []\<rparr>\<rparr>"
        and cfg = example_config and t = example_t
        and fetch = "always_respond network_failure"]
    by (simp add: example_form_def example_t_def)
  have 3: "handleSubmit example_config example_t (always_respond network_failure)
      (example_screen\<lparr>formData := example_form\<lparr>when_field := []\<rparr>\<rparr>)
     = (example_screen\<lparr>formData := example_form\<lparr>when_field := []\<rparr>,
          error := Some ''error_time_required''\<rparr>, [])"
    using handleSubmit_validation
      [where s = "example_screen\<lparr>formData := example_form\<lparr>when_field := []\<rparr>\<rparr>"
        and cfg = example_config and t = example_t
        and fetch = "always_respond network_failure"]
    by (simp add: example_form_def example_t_def)
  note th = handleSubmit_validation [where s = example_screen and img = example_file
        and cfg = example_config and t = example_t
        and fetch = "always_respond network_failure"]
  from th example_screen_valid
  have 4: "snd (handleSubmit example_config example_t (always_respond network_failure)
        example_screen) \<noteq> []"
    by auto
  from th example_screen_valid
  have 5: "title (build_payload True (formData example_screen) example_file)
      = ''Lost item at Mall''"
    by (simp add: example_screen_def example_form_def)
  from 1 2 3 4 5 show ?thesis by (intro conjI)
qed

end
